theory Spec2Isabelle
  imports Complex_Main "HOL-Library.Product_Lexorder"
begin

section \<open>Text: Python strings as lists of code points\<close>

text \<open>
  A Python \<open>str\<close> is a sequence of Unicode code points, so text is a list of
  natural numbers and \<open>len\<close> is \<open>length\<close>. String literals of the source are
  written \<open>py ''...''\<close>.

  The string methods and the \<open>re\<close> module consult the Unicode character database.
  For ASCII code points (below 128) the tables are written out here. For every other
  code point they are taken from a record \<open>ucd\<close> that stands for the database of the
  Python runtime, which is not part of the repository: every definition that depends on
  it takes the record as its first argument \<open>U\<close>, and every theorem holds for any
  \<open>U\<close>.

  Font sizes and coordinates are Python floats. Their values are exact rationals here,
  and so are the products and quotients of the font rules; the two subtractions of the
  span grouping are rounded to the nearest double as the machine does.
\<close>

type_synonym pystr = "nat list"

definition py :: "string \<Rightarrow> pystr" where
  "py s = map of_char s"

record ucd =
  ucd_decimal :: "nat \<Rightarrow> bool"
  ucd_isdigit :: "nat \<Rightarrow> bool"
  ucd_alnum :: "nat \<Rightarrow> bool"
  ucd_variants :: "nat \<Rightarrow> nat list"
  ucd_lower :: "pystr \<Rightarrow> pystr"
  ucd_istitle :: "pystr \<Rightarrow> bool"
  ucd_isupper :: "pystr \<Rightarrow> bool"
  ucd_nfc :: "pystr \<Rightarrow> pystr"
  ucd_name_has :: "pystr \<Rightarrow> nat \<Rightarrow> bool"

text \<open>
  \<open>ucd_decimal\<close>: the code points \<open>\d\<close> matches; \<open>ucd_isdigit\<close>: \<open>str.isdigit\<close>;
  \<open>ucd_alnum\<close>: the alphanumeric code points (\<open>\w\<close> adds the underscore);
  \<open>ucd_variants\<close>: the other-case forms of a code point that a pattern compiled with
  \<open>re.IGNORECASE\<close> also accepts; \<open>ucd_lower\<close>, \<open>ucd_istitle\<close>, \<open>ucd_isupper\<close>:
  \<open>str.lower\<close>, \<open>str.istitle\<close>, \<open>str.isupper\<close> on a string that is not pure ASCII;
  \<open>ucd_nfc\<close>: \<open>unicodedata.normalize('NFC', _)\<close>; \<open>ucd_name_has w c\<close>: the word
  \<open>w\<close> occurs in \<open>unicodedata.name(c, '')\<close>.
\<close>

definition is_ascii :: "pystr \<Rightarrow> bool" where
  "is_ascii s = list_all (\<lambda>c. c < 128) s"

text \<open>\<open>str.isspace\<close> of one character; the class \<open>\s\<close> of \<open>re\<close> is the same set.\<close>

definition py_isspace :: "nat \<Rightarrow> bool" where
  "py_isspace c =
     ((9 \<le> c \<and> c \<le> 13) \<or> (28 \<le> c \<and> c \<le> 32) \<or> c = 133 \<or> c = 160 \<or> c = 5760 \<or>
      (8192 \<le> c \<and> c \<le> 8202) \<or> c = 8232 \<or> c = 8233 \<or> c = 8239 \<or> c = 8287 \<or>
      c = 12288)"

definition ascii_isupper :: "nat \<Rightarrow> bool" where
  "ascii_isupper c = (65 \<le> c \<and> c \<le> 90)"

definition ascii_islower :: "nat \<Rightarrow> bool" where
  "ascii_islower c = (97 \<le> c \<and> c \<le> 122)"

definition ascii_isdigit :: "nat \<Rightarrow> bool" where
  "ascii_isdigit c = (48 \<le> c \<and> c \<le> 57)"

definition ascii_lower :: "nat \<Rightarrow> nat" where
  "ascii_lower c = (if ascii_isupper c then c + 32 else c)"

text \<open>\<open>s.strip()\<close>, \<open>s.lower()\<close>, \<open>a in b\<close> on strings.\<close>

definition py_strip :: "pystr \<Rightarrow> pystr" where
  "py_strip s = rev (dropWhile py_isspace (rev (dropWhile py_isspace s)))"

definition py_lower :: "ucd \<Rightarrow> pystr \<Rightarrow> pystr" where
  "py_lower U s = (if is_ascii s then map ascii_lower s else ucd_lower U s)"

fun starts_with :: "pystr \<Rightarrow> pystr \<Rightarrow> bool" where
  "starts_with [] s = True"
| "starts_with (p # ps) [] = False"
| "starts_with (p # ps) (c # cs) = (p = c \<and> starts_with ps cs)"

fun py_in :: "pystr \<Rightarrow> pystr \<Rightarrow> bool" where
  "py_in p [] = (p = [])"
| "py_in p (c # cs) = (starts_with p (c # cs) \<or> py_in p cs)"

text \<open>
  \<open>re.sub(r'\s+', ' ', s)\<close>: every maximal run of whitespace becomes one space.
\<close>

function collapse_ws :: "pystr \<Rightarrow> pystr" where
  "collapse_ws [] = []"
| "collapse_ws (c # cs) =
     (if py_isspace c then 32 # collapse_ws (dropWhile py_isspace cs)
      else c # collapse_ws cs)"
  by pat_completeness auto
termination
  by (relation "measure length") (auto simp: le_imp_less_Suc length_dropWhile_le)

section \<open>Title membership (\<open>is_text_part_of_title\<close>)\<close>

text \<open>
  The source compares a length with \<open>len(...) * 0.4\<close> and \<open>len(...) * 0.6\<close> in
  floating point; for lengths of strings the comparison has the same outcome with the
  exact factors \<open>2/5\<close> and \<open>3/5\<close>.
\<close>

definition is_text_part_of_title :: "ucd \<Rightarrow> pystr \<Rightarrow> pystr \<Rightarrow> pystr list \<Rightarrow> bool" where
  "is_text_part_of_title U text title title_components =
     (if text = [] \<or> title = [] then False
      else
        let text_clean = collapse_ws (py_lower U (py_strip text));
            title_clean = collapse_ws (py_lower U (py_strip title))
        in
          if text_clean = title_clean then True
          else if list_ex (\<lambda>component. text_clean = py_lower U (py_strip component))
                    title_components then True
          else if 8 \<le> length text_clean then
            (if py_in text_clean title_clean
                \<and> (of_nat (length title_clean) :: rat) * (2 / 5) \<le> of_nat (length text_clean)
             then True
             else if py_in title_clean text_clean
                \<and> (of_nat (length text_clean) :: rat) * (3 / 5) \<le> of_nat (length title_clean)
             then True
             else False)
          else False)"

section \<open>Regular expressions of the \<open>re\<close> module\<close>

text \<open>
  The source only asks whether a pattern matches (\<open>re.match\<close>, \<open>re.search\<close>), so a
  pattern is modelled by the set of its matches: \<open>rx_ends\<close> lists every position
  where a match of the pattern that starts at the given position can end. A position is
  the character before it (\<open>None\<close> at the start of the text) and the text after it.
  Repetition occurs in the source's patterns only on single characters and character
  classes: \<open>Rep P lo hi\<close> is \<open>P{lo,hi}\<close>, with \<open>hi = None\<close> for no upper bound.
  \<open>Bol\<close> is \<open>^\<close>, \<open>Eol\<close> is \<open>$\<close> (the end of the text, or just before a newline
  that ends it) and \<open>Wb\<close> is \<open>\b\<close>.
\<close>

datatype rx =
    Eps
  | Cls "nat \<Rightarrow> bool"
  | Rep "nat \<Rightarrow> bool" nat "nat option"
  | Seq rx rx
  | Alt rx rx
  | Bol
  | Eol
  | Wb

type_synonym rx_pos = "nat option \<times> pystr"

definition re_digit :: "ucd \<Rightarrow> nat \<Rightarrow> bool" where
  "re_digit U c = (if c < 128 then ascii_isdigit c else ucd_decimal U c)"

definition re_word :: "ucd \<Rightarrow> nat \<Rightarrow> bool" where
  "re_word U c =
     (if c < 128 then ascii_isdigit c \<or> ascii_isupper c \<or> ascii_islower c \<or> c = 95
      else ucd_alnum U c)"

definition re_any :: "nat \<Rightarrow> bool" where
  "re_any c = (c \<noteq> 10)"

definition case_variants :: "ucd \<Rightarrow> nat \<Rightarrow> nat list" where
  "case_variants U c =
     (if c < 128 then
        (if ascii_isupper c then [c + 32] else if ascii_islower c then [c - 32] else [])
      else ucd_variants U c)"

text \<open>
  A literal or a range of a pattern compiled with \<open>re.IGNORECASE\<close>: a character
  matches when it or one of its other-case forms is in the class. The patterns of the
  source name only ASCII letters and signs that have no case. The classes \<open>\d\<close>,
  \<open>\s\<close>, \<open>\w\<close> and the dot do not depend on the flag.
\<close>

definition ci :: "ucd \<Rightarrow> (nat \<Rightarrow> bool) \<Rightarrow> nat \<Rightarrow> bool" where
  "ci U P c = (P c \<or> list_ex P (case_variants U c))"

fun rep_ends :: "(nat \<Rightarrow> bool) \<Rightarrow> nat \<Rightarrow> nat option \<Rightarrow> nat option \<Rightarrow> pystr \<Rightarrow> rx_pos list" where
  "rep_ends P lo hi pv [] = (if lo = 0 then [(pv, [])] else [])"
| "rep_ends P lo hi pv (c # cs) =
     (if P c \<and> hi \<noteq> Some 0
      then rep_ends P (lo - 1) (map_option (\<lambda>h. h - 1) hi) (Some c) cs else [])
     @ (if lo = 0 then [(pv, c # cs)] else [])"

fun rx_ends :: "ucd \<Rightarrow> rx \<Rightarrow> rx_pos \<Rightarrow> rx_pos list" where
  "rx_ends U Eps st = [st]"
| "rx_ends U (Cls P) st =
     (case snd st of [] \<Rightarrow> [] | c # cs \<Rightarrow> if P c then [(Some c, cs)] else [])"
| "rx_ends U (Rep P lo hi) st = rep_ends P lo hi (fst st) (snd st)"
| "rx_ends U (Seq a b) st = concat (map (rx_ends U b) (rx_ends U a st))"
| "rx_ends U (Alt a b) st = rx_ends U a st @ rx_ends U b st"
| "rx_ends U Bol st = (if fst st = None then [st] else [])"
| "rx_ends U Eol st = (if snd st = [] \<or> snd st = [10] then [st] else [])"
| "rx_ends U Wb st =
     (if (case fst st of None \<Rightarrow> False | Some c \<Rightarrow> re_word U c)
         \<noteq> (case snd st of [] \<Rightarrow> False | c # cs \<Rightarrow> re_word U c)
      then [st] else [])"

definition re_match :: "ucd \<Rightarrow> rx \<Rightarrow> pystr \<Rightarrow> bool" where
  "re_match U r s = (rx_ends U r (None, s) \<noteq> [])"

fun search_from :: "ucd \<Rightarrow> rx \<Rightarrow> nat option \<Rightarrow> pystr \<Rightarrow> bool" where
  "search_from U r pv [] = (rx_ends U r (pv, []) \<noteq> [])"
| "search_from U r pv (c # cs) =
     (rx_ends U r (pv, c # cs) \<noteq> [] \<or> search_from U r (Some c) cs)"

definition re_search :: "ucd \<Rightarrow> rx \<Rightarrow> pystr \<Rightarrow> bool" where
  "re_search U r s = search_from U r None s"

text \<open>Pattern syntax: sequences, alternatives, literals, classes.\<close>

definition seqs :: "rx list \<Rightarrow> rx" where
  "seqs rs = foldr Seq rs Eps"

fun alts :: "rx list \<Rightarrow> rx" where
  "alts [] = Cls (\<lambda>c. False)"
| "alts [r] = r"
| "alts (r # rs) = Alt r (alts rs)"

definition lit :: "pystr \<Rightarrow> rx" where
  "lit s = seqs (map (\<lambda>p. Cls (\<lambda>c. c = p)) s)"

definition lit_i :: "ucd \<Rightarrow> pystr \<Rightarrow> rx" where
  "lit_i U s = seqs (map (\<lambda>p. Cls (ci U (\<lambda>c. c = p))) s)"

definition words_i :: "ucd \<Rightarrow> string list \<Rightarrow> rx" where
  "words_i U ws = alts (map (\<lambda>w. lit_i U (py w)) ws)"

definition rx_plus :: "(nat \<Rightarrow> bool) \<Rightarrow> rx" where
  "rx_plus P = Rep P 1 None"

definition rx_star :: "(nat \<Rightarrow> bool) \<Rightarrow> rx" where
  "rx_star P = Rep P 0 None"

definition rx_opt :: "(nat \<Rightarrow> bool) \<Rightarrow> rx" where
  "rx_opt P = Rep P 0 (Some 1)"

definition one_of :: "string \<Rightarrow> nat \<Rightarrow> bool" where
  "one_of s c = (c \<in> set (py s))"

definition upper_AZ :: "nat \<Rightarrow> bool" where
  "upper_AZ c = (65 \<le> c \<and> c \<le> 90)"

section \<open>More string methods\<close>

text \<open>\<open>s.split()\<close>: the maximal runs of characters that are not whitespace.\<close>

function py_split :: "pystr \<Rightarrow> pystr list" where
  "py_split [] = []"
| "py_split (c # cs) =
     (if py_isspace c then py_split cs
      else takeWhile (\<lambda>x. \<not> py_isspace x) (c # cs)
           # py_split (dropWhile (\<lambda>x. \<not> py_isspace x) cs))"
  by pat_completeness auto
termination
  by (relation "measure length") (auto simp: le_imp_less_Suc length_dropWhile_le)

definition py_count :: "nat \<Rightarrow> pystr \<Rightarrow> nat" where
  "py_count c s = length (filter (\<lambda>x. x = c) s)"

definition py_endswith :: "pystr \<Rightarrow> pystr \<Rightarrow> bool" where
  "py_endswith suffix s = starts_with (rev suffix) (rev s)"

text \<open>
  \<open>str.istitle\<close>: an uppercase letter only after a character without case, a lowercase
  letter only after a letter, and at least one letter. The first argument of the loop is
  \<open>previous_is_cased\<close>, the second \<open>cased\<close>.
\<close>

fun istitle_from :: "bool \<Rightarrow> bool \<Rightarrow> pystr \<Rightarrow> bool" where
  "istitle_from prev cased [] = cased"
| "istitle_from prev cased (c # cs) =
     (if ascii_isupper c then (if prev then False else istitle_from True True cs)
      else if ascii_islower c then (if \<not> prev then False else istitle_from True True cs)
      else istitle_from False cased cs)"

definition py_istitle :: "ucd \<Rightarrow> pystr \<Rightarrow> bool" where
  "py_istitle U s = (if is_ascii s then istitle_from False False s else ucd_istitle U s)"

definition py_isupper :: "ucd \<Rightarrow> pystr \<Rightarrow> bool" where
  "py_isupper U s =
     (if is_ascii s then list_ex ascii_isupper s \<and> \<not> list_ex ascii_islower s
      else ucd_isupper U s)"

section \<open>Text normalisation (\<open>detect_language\<close>, \<open>normalize_text\<close>)\<close>

datatype language = Arabic | Hebrew | Latin | Unknown

definition py_nfc :: "ucd \<Rightarrow> pystr \<Rightarrow> pystr" where
  "py_nfc U s = (if is_ascii s then s else ucd_nfc U s)"

text \<open>The directional marks U+200E, U+200F and U+202A to U+202E.\<close>

definition is_directional :: "nat \<Rightarrow> bool" where
  "is_directional c = (c = 8206 \<or> c = 8207 \<or> (8234 \<le> c \<and> c \<le> 8238))"

definition normalize_text :: "ucd \<Rightarrow> pystr \<Rightarrow> language \<Rightarrow> pystr" where
  "normalize_text U text lang =
     (if text = [] then text
      else
        let t1 = py_nfc U text;
            t2 = (if lang = Arabic \<or> lang = Hebrew
                  then filter (\<lambda>c. \<not> is_directional c) t1 else t1)
        in collapse_ws (py_strip t2))"

definition py_isdigit :: "ucd \<Rightarrow> nat \<Rightarrow> bool" where
  "py_isdigit U c = (if c < 128 then ascii_isdigit c else ucd_isdigit U c)"

definition name_has :: "ucd \<Rightarrow> string \<Rightarrow> nat \<Rightarrow> bool" where
  "name_has U w c = (if c < 128 then False else ucd_name_has U (py w) c)"

fun scan_script :: "ucd \<Rightarrow> pystr \<Rightarrow> language" where
  "scan_script U [] = Latin"
| "scan_script U (c # cs) =
     (if py_isspace c \<or> py_isdigit U c then scan_script U cs
      else if (1536 \<le> c \<and> c \<le> 1791) \<or> name_has U ''ARABIC'' c then Arabic
      else if (1424 \<le> c \<and> c \<le> 1535) \<or> name_has U ''HEBREW'' c then Hebrew
      else scan_script U cs)"

definition detect_language :: "ucd \<Rightarrow> pystr \<Rightarrow> language" where
  "detect_language U text =
     (if text = [] \<or> length (py_strip text) < 10 then Unknown else scan_script U text)"

definition get_semantic_keywords :: "pystr list" where
  "get_semantic_keywords = map py
     [''introduction'', ''conclusion'', ''summary'', ''overview'', ''background'',
      ''methodology'', ''results'', ''discussion'', ''references'', ''appendix'',
      ''chapter'', ''section'', ''part'', ''goals'', ''objectives'']"

section \<open>Document statistics\<close>

text \<open>
  The statistics are a Python dict; a field is \<open>None\<close> when the dict has no such key.
  A dict is true when it has a key. A \<open>document_stats\<close> argument is \<open>None\<close> when the
  caller passes Python's \<open>None\<close>.
\<close>

record doc_stats =
  ds_body_size :: "rat option"
  ds_large_font_threshold :: "rat option"
  ds_medium_font_threshold :: "rat option"
  ds_avg_text_length :: "rat option"
  ds_font_sizes :: "rat list option"

definition stats_given :: "doc_stats option \<Rightarrow> bool" where
  "stats_given ds =
     (case ds of
        None \<Rightarrow> False
      | Some d \<Rightarrow> \<not> (ds_body_size d = None \<and> ds_large_font_threshold d = None
                    \<and> ds_medium_font_threshold d = None \<and> ds_avg_text_length d = None
                    \<and> ds_font_sizes d = None))"

text \<open>\<open>document_stats.get(key, default)\<close> for the two thresholds.\<close>

definition get_large :: "doc_stats option \<Rightarrow> rat \<Rightarrow> rat" where
  "get_large ds dflt =
     (case ds of None \<Rightarrow> dflt
      | Some d \<Rightarrow> (case ds_large_font_threshold d of None \<Rightarrow> dflt | Some v \<Rightarrow> v))"

definition get_medium :: "doc_stats option \<Rightarrow> rat \<Rightarrow> rat" where
  "get_medium ds dflt =
     (case ds of None \<Rightarrow> dflt
      | Some d \<Rightarrow> (case ds_medium_font_threshold d of None \<Rightarrow> dflt | Some v \<Rightarrow> v))"

section \<open>Heading level (\<open>classify_heading_level\<close>)\<close>

datatype level = H1 | H2 | H3

text \<open>\<open>^(Chapter|Section|Part|Round)\s+\d+\<close>, with \<open>re.IGNORECASE\<close>.\<close>

definition pat_major :: "ucd \<Rightarrow> rx" where
  "pat_major U =
     seqs [Bol, words_i U [''Chapter'', ''Section'', ''Part'', ''Round''],
           rx_plus py_isspace, rx_plus (re_digit U)]"

text \<open>\<open>^\d+\.\s+[A-Z]\<close>.\<close>

definition pat_numbered :: "ucd \<Rightarrow> rx" where
  "pat_numbered U =
     seqs [Bol, rx_plus (re_digit U), lit (py ''.''), rx_plus py_isspace, Cls upper_AZ]"

text \<open>\<open>\b(sample|provided|working|git|dockerfile|solution)\b\<close>, with \<open>re.IGNORECASE\<close>.\<close>

definition pat_list_item :: "ucd \<Rightarrow> rx" where
  "pat_list_item U =
     seqs [Wb, words_i U [''sample'', ''provided'', ''working'', ''git'', ''dockerfile'',
                          ''solution''], Wb]"

text \<open>\<open>^\d+\.\d+\s+[A-Z]\<close>.\<close>

definition pat_two_level :: "ucd \<Rightarrow> rx" where
  "pat_two_level U =
     seqs [Bol, rx_plus (re_digit U), lit (py ''.''), rx_plus (re_digit U),
           rx_plus py_isspace, Cls upper_AZ]"

text \<open>\<open>^\d+\.\d+\.\d+\s+\<close>.\<close>

definition pat_three_level :: "ucd \<Rightarrow> rx" where
  "pat_three_level U =
     seqs [Bol, rx_plus (re_digit U), lit (py ''.''), rx_plus (re_digit U), lit (py ''.''),
           rx_plus (re_digit U), rx_plus py_isspace]"

text \<open>
  The three font-based classifications that follow the patterns: with the document's
  thresholds, with the standard thresholds, and by absolute size.
\<close>

definition classify_by_font :: "rat \<Rightarrow> bool \<Rightarrow> rat \<Rightarrow> doc_stats option \<Rightarrow> level" where
  "classify_by_font font_size is_bold body_sz document_stats =
     (if 0 < body_sz \<and> stats_given document_stats then
        (let font_ratio = font_size / body_sz;
             large_font_threshold = get_large document_stats (3 / 2);
             medium_font_threshold = get_medium document_stats (6 / 5)
         in if large_font_threshold \<le> font_ratio
               \<or> (large_font_threshold * (9 / 10) \<le> font_ratio \<and> is_bold) then H1
            else if medium_font_threshold \<le> font_ratio
               \<or> (medium_font_threshold * (9 / 10) \<le> font_ratio \<and> is_bold) then H2
            else H3)
      else if 0 < body_sz then
        (let font_ratio = font_size / body_sz
         in if 3 / 2 \<le> font_ratio \<or> (13 / 10 \<le> font_ratio \<and> is_bold) then H1
            else if 6 / 5 \<le> font_ratio \<or> (11 / 10 \<le> font_ratio \<and> is_bold) then H2
            else H3)
      else if is_bold \<and> 14 \<le> font_size then H1
      else if is_bold \<or> 12 \<le> font_size then H2
      else H3)"

definition classify_heading_level ::
  "ucd \<Rightarrow> pystr \<Rightarrow> rat \<Rightarrow> bool \<Rightarrow> rat \<Rightarrow> doc_stats option \<Rightarrow> level" where
  "classify_heading_level U text font_size is_bold body_sz document_stats =
     (if re_match U (pat_major U) text then H1
      else if re_match U (pat_numbered U) text then
        (let word_count = length (py_split text)
         in if 8 < word_count \<or> 1 < py_count 44 text \<or> py_endswith (py ''.'') text
               \<or> re_search U (pat_list_item U) text then H3
            else if word_count \<le> 5 \<and> \<not> py_endswith (py ''.'') text then H1
            else H2)
      else if re_match U (pat_two_level U) text then H2
      else if re_match U (pat_three_level U) text then H3
      else classify_by_font font_size is_bold body_sz document_stats)"

section \<open>Heading validation (\<open>is_valid_heading\<close>)\<close>

text \<open>\<open>^(the|and|or|of|in|on|at|to|for|with|by)$\<close>, matched against \<open>text.lower()\<close>.\<close>

definition pat_stopword :: rx where
  "pat_stopword =
     seqs [Bol, alts (map (\<lambda>w. lit (py w))
                  [''the'', ''and'', ''or'', ''of'', ''in'', ''on'', ''at'', ''to'', ''for'',
                   ''with'', ''by'']), Eol]"

text \<open>
  The exclusion patterns, in the order of the source; each is searched with
  \<open>re.IGNORECASE\<close>. The pattern is quoted before its definition.
\<close>

text \<open>\<open>(address|phone|email|www\.|\.com|http)\<close>\<close>

definition excl_contact :: "ucd \<Rightarrow> rx" where
  "excl_contact U =
     words_i U [''address'', ''phone'', ''email'', ''www.'', ''.com'', ''http'']"

text \<open>\<open>\d+\s+\w*\s*(street|ave|road|blvd|parkway|way|drive|lane)\<close>\<close>

definition excl_street :: "ucd \<Rightarrow> rx" where
  "excl_street U =
     seqs [rx_plus (re_digit U), rx_plus py_isspace, rx_star (re_word U), rx_star py_isspace,
           words_i U [''street'', ''ave'', ''road'', ''blvd'', ''parkway'', ''way'', ''drive'',
                      ''lane'']]"

text \<open>\<open>^\d{3,5}\s+[A-Z]+\s*(PARKWAY|STREET|AVE|ROAD|BLVD)\<close>\<close>

definition excl_street_caps :: "ucd \<Rightarrow> rx" where
  "excl_street_caps U =
     seqs [Bol, Rep (re_digit U) 3 (Some 5), rx_plus py_isspace, rx_plus (ci U upper_AZ),
           rx_star py_isspace,
           words_i U [''PARKWAY'', ''STREET'', ''AVE'', ''ROAD'', ''BLVD'']]"

text \<open>\<open>^[A-Z]{2}\s+\d{5}\<close>\<close>

definition excl_postal :: "ucd \<Rightarrow> rx" where
  "excl_postal U =
     seqs [Bol, Rep (ci U upper_AZ) 2 (Some 2), rx_plus py_isspace,
           Rep (re_digit U) 5 (Some 5)]"

text \<open>\<open>^\(\d{3}\)\s*\d{3}-\d{4}\<close>\<close>

definition excl_phone :: "ucd \<Rightarrow> rx" where
  "excl_phone U =
     seqs [Bol, lit_i U (py ''(''), Rep (re_digit U) 3 (Some 3), lit_i U (py '')''),
           rx_star py_isspace, Rep (re_digit U) 3 (Some 3), lit_i U (py ''-''),
           Rep (re_digit U) 4 (Some 4)]"

text \<open>\<open>(rsvp|fill|sign|date|name).*[-_]{3,}\<close>\<close>

definition excl_form_field :: "ucd \<Rightarrow> rx" where
  "excl_form_field U =
     seqs [words_i U [''rsvp'', ''fill'', ''sign'', ''date'', ''name''], rx_star re_any,
           Rep (ci U (one_of ''-_'')) 3 None]"

text \<open>\<open>^(near|on the|in the)\s+\<close>\<close>

definition excl_direction :: "ucd \<Rightarrow> rx" where
  "excl_direction U =
     seqs [Bol, words_i U [''near'', ''on the'', ''in the''], rx_plus py_isspace]"

text \<open>\<open>^\d+\s+(pages?|minutes?|hours?|days?|months?|years?)$\<close>\<close>

definition excl_duration :: "ucd \<Rightarrow> rx" where
  "excl_duration U =
     seqs [Bol, rx_plus (re_digit U), rx_plus py_isspace,
           alts (map (\<lambda>w. Seq (lit_i U (py w)) (rx_opt (ci U (one_of ''s''))))
                   [''page'', ''minute'', ''hour'', ''day'', ''month'', ''year'']),
           Eol]"

text \<open>\<open>^(page|figure|table|chart|diagram)\s+\d+\<close>\<close>

definition excl_reference :: "ucd \<Rightarrow> rx" where
  "excl_reference U =
     seqs [Bol, words_i U [''page'', ''figure'', ''table'', ''chart'', ''diagram''],
           rx_plus py_isspace, rx_plus (re_digit U)]"

text \<open>
  \<open>^\d+\s*[%$...]\<close>: the class holds the percent and dollar signs and the euro (U+20AC),
  pound (U+00A3) and yen (U+00A5) signs.
\<close>

definition excl_currency :: "ucd \<Rightarrow> rx" where
  "excl_currency U =
     seqs [Bol, rx_plus (re_digit U), rx_star py_isspace,
           Cls (ci U (\<lambda>c. c = 37 \<or> c = 36 \<or> c = 8364 \<or> c = 163 \<or> c = 165))]"

text \<open>\<open>^[A-Z]{2,}\s*\d+$\<close>\<close>

definition excl_code :: "ucd \<Rightarrow> rx" where
  "excl_code U =
     seqs [Bol, Rep (ci U upper_AZ) 2 None, rx_star py_isspace, rx_plus (re_digit U), Eol]"

text \<open>\<open>^(criteria|max|points|total|description)$\<close>\<close>

definition excl_table_header :: "ucd \<Rightarrow> rx" where
  "excl_table_header U =
     seqs [Bol, words_i U [''criteria'', ''max'', ''points'', ''total'', ''description''], Eol]"

text \<open>\<open>^(constraint|requirement)$\<close>\<close>

definition excl_table_header2 :: "ucd \<Rightarrow> rx" where
  "excl_table_header2 U = seqs [Bol, words_i U [''constraint'', ''requirement''], Eol]"

text \<open>\<open>^\w+\)$\<close>\<close>

definition excl_paren_word :: "ucd \<Rightarrow> rx" where
  "excl_paren_word U = seqs [Bol, rx_plus (re_word U), lit_i U (py '')''), Eol]"

text \<open>\<open>^(why this matters|the journey ahead|your mission)$\<close>\<close>

definition excl_phrase :: "ucd \<Rightarrow> rx" where
  "excl_phrase U =
     seqs [Bol, words_i U [''why this matters'', ''the journey ahead'', ''your mission''],
           Eol]"

text \<open>\<open>^\d+\.\s+(a|an|the)\s+\<close>\<close>

definition excl_article_item :: "ucd \<Rightarrow> rx" where
  "excl_article_item U =
     seqs [Bol, rx_plus (re_digit U), lit_i U (py ''.''), rx_plus py_isspace,
           words_i U [''a'', ''an'', ''the''], rx_plus py_isspace]"

text \<open>\<open>^\d+\.\s+sample\s+\<close>\<close>

definition excl_sample_item :: "ucd \<Rightarrow> rx" where
  "excl_sample_item U =
     seqs [Bol, rx_plus (re_digit U), lit_i U (py ''.''), rx_plus py_isspace,
           lit_i U (py ''sample''), rx_plus py_isspace]"

text \<open>\<open>hackathon\d+\.git$\<close>\<close>

definition excl_git :: "ucd \<Rightarrow> rx" where
  "excl_git U =
     seqs [lit_i U (py ''hackathon''), rx_plus (re_digit U), lit_i U (py ''.git''), Eol]"

definition exclusion_patterns :: "ucd \<Rightarrow> rx list" where
  "exclusion_patterns U =
     [excl_contact U, excl_street U, excl_street_caps U, excl_postal U, excl_phone U,
      excl_form_field U, excl_direction U, excl_duration U, excl_reference U,
      excl_currency U, excl_code U, excl_table_header U, excl_table_header2 U,
      excl_paren_word U, excl_phrase U, excl_article_item U, excl_sample_item U,
      excl_git U]"

text \<open>\<open>^\d+\.\<close>, \<open>^\d+\.?\s+\<close> and \<open>^(Chapter|Section|Part)\s+\d+\<close> (the last with
  \<open>re.IGNORECASE\<close>).\<close>

definition pat_number_dot :: "ucd \<Rightarrow> rx" where
  "pat_number_dot U = seqs [Bol, rx_plus (re_digit U), lit (py ''.'')]"

definition pat_numbered_section :: "ucd \<Rightarrow> rx" where
  "pat_numbered_section U =
     seqs [Bol, rx_plus (re_digit U), rx_opt (one_of ''.''), rx_plus py_isspace]"

definition pat_chapter :: "ucd \<Rightarrow> rx" where
  "pat_chapter U =
     seqs [Bol, words_i U [''Chapter'', ''Section'', ''Part''], rx_plus py_isspace,
           rx_plus (re_digit U)]"

text \<open>\<open>text[0].isupper()\<close>, for a text that is not empty.\<close>

definition starts_with_capital :: "ucd \<Rightarrow> pystr \<Rightarrow> bool" where
  "starts_with_capital U text = (case text of [] \<Rightarrow> False | c # cs \<Rightarrow> py_isupper U [c])"

text \<open>The two scores of the source, and the score a text of that many words needs.\<close>

definition content_score :: "ucd \<Rightarrow> pystr \<Rightarrow> language \<Rightarrow> nat" where
  "content_score U text lang =
     (let word_count = length (py_split text);
          has_numbered_section = re_match U (pat_numbered_section U) text;
          has_chapter_pattern = re_match U (pat_chapter U) text;
          text_normalized = py_lower U (normalize_text U text lang);
          has_semantic_keywords =
            list_ex (\<lambda>keyword. py_in keyword text_normalized) get_semantic_keywords;
          is_title_case = (py_istitle U text \<and> word_count \<le> 8);
          is_all_caps = (py_isupper U text \<and> 3 < length text \<and> length text < 50)
      in of_bool has_chapter_pattern * 6 + of_bool has_numbered_section * 4
         + of_bool has_semantic_keywords * 3 + of_bool is_title_case * 2
         + of_bool is_all_caps * 2 + of_bool (starts_with_capital U text) * 1)"

definition font_score :: "rat \<Rightarrow> bool \<Rightarrow> rat \<Rightarrow> doc_stats option \<Rightarrow> nat" where
  "font_score font_size is_bold body_sz document_stats =
     (let font_ratio = (if 0 < body_sz then font_size / body_sz else 1);
          large_threshold =
            (if stats_given document_stats then get_large document_stats (13 / 10)
             else 13 / 10);
          medium_threshold =
            (if stats_given document_stats then get_medium document_stats (6 / 5)
             else 6 / 5);
          is_large_font = (large_threshold \<le> font_ratio);
          is_notable_font = (medium_threshold \<le> font_ratio \<and> is_bold)
      in of_bool is_large_font * 4 + of_bool is_notable_font * 3 + of_bool is_bold * 2)"

definition required_score :: "nat \<Rightarrow> nat" where
  "required_score word_count = (if word_count \<le> 5 then 5 else if word_count \<le> 10 then 6 else 7)"

definition is_valid_heading ::
  "ucd \<Rightarrow> pystr \<Rightarrow> rat \<Rightarrow> bool \<Rightarrow> rat \<Rightarrow> language \<Rightarrow> doc_stats option \<Rightarrow> bool" where
  "is_valid_heading U text font_size is_bold body_sz lang document_stats =
     (if text = [] \<or> length text < 3 \<or> 200 < length text then False
      else if re_match U pat_stopword (py_lower U text) then False
      else if list_ex (\<lambda>pattern. re_search U pattern text) (exclusion_patterns U) then False
      else
        let word_count = length (py_split text)
        in if 15 < word_count \<and> \<not> re_match U (pat_number_dot U) text then False
           else if (1 / 10 :: rat)
                     < of_nat (length (filter (one_of ''.,;:!?'') text)) / of_nat (length text)
           then False
           else required_score word_count
                  \<le> content_score U text lang
                    + font_score font_size is_bold body_sz document_stats)"

section \<open>Floating-point subtraction\<close>

text \<open>
  A Python float is an IEEE 754 double. \<open>a - b\<close> on floats is the exact difference
  rounded to the nearest double, a tie going to the even significand: \<open>round_double\<close>.
  A double has 53 significant bits, so the spacing of the doubles around \<open>x\<close> is
  \<open>2 ^ (e - 52)\<close> where \<open>2 ^ e \<le> |x| < 2 ^ (e + 1)\<close>, and \<open>2 ^ (- 1074)\<close> below
  \<open>2 ^ (- 1022)\<close>. Overflow is left out: it needs a difference beyond \<open>10 ^ 308\<close>.
  \<open>bit_length k\<close> is the number of binary digits of \<open>k\<close>.
\<close>

function bit_length :: "int \<Rightarrow> nat" where
  "bit_length k = (if k \<le> 0 then 0 else Suc (bit_length (k div 2)))"
  by pat_completeness auto
termination
  by (relation "measure nat") auto

declare bit_length.simps [simp del]

text \<open>The \<open>e\<close> with \<open>2 ^ e \<le> x < 2 ^ (e + 1)\<close>, for a positive \<open>x\<close>.\<close>

definition floor_log2 :: "rat \<Rightarrow> int" where
  "floor_log2 x =
     (if 1 \<le> x then int (bit_length \<lfloor>x\<rfloor>) - 1
      else - int (bit_length (\<lceil>1 / x\<rceil> - 1)))"

text \<open>The nearest integer, a tie going to the even one.\<close>

definition round_even :: "rat \<Rightarrow> int" where
  "round_even r =
     (let f = \<lfloor>r\<rfloor>; d = r - of_int f
      in if d < 1 / 2 then f else if 1 / 2 < d then f + 1 else if even f then f else f + 1)"

definition round_double :: "rat \<Rightarrow> rat" where
  "round_double x =
     (if x = 0 then 0
      else let u = power_int 2 (max (floor_log2 \<bar>x\<bar>) (- 1022) - 52)
           in of_int (round_even (x / u)) * u)"

definition fsub :: "rat \<Rightarrow> rat \<Rightarrow> rat" where
  "fsub a b = round_double (a - b)"

section \<open>Span grouping (\<open>group_text_spans\<close>, \<open>merge_group\<close>)\<close>

text \<open>
  A text span is the dict that \<open>extract_title_from_pdf\<close> builds for each span of a page.
  \<open>ts_bbox\<close> is \<open>None\<close> when the dict has no key \<open>'bbox'\<close>; a bounding box is
  \<open>(x0, y0, x1, y1)\<close>.
\<close>

type_synonym bbox = "rat \<times> rat \<times> rat \<times> rat"

record text_span =
  ts_text :: pystr
  ts_x_pos :: rat
  ts_y_pos :: rat
  ts_font_size :: rat
  ts_is_bold :: bool
  ts_bbox :: "bbox option"

text \<open>\<open>sep.join(parts)\<close>.\<close>

fun py_join :: "pystr \<Rightarrow> pystr list \<Rightarrow> pystr" where
  "py_join sep [] = []"
| "py_join sep [p] = p"
| "py_join sep (p # ps) = p @ sep @ py_join sep ps"

definition merge_group :: "text_span list \<Rightarrow> text_span option" where
  "merge_group spans =
     (case spans of
        [] \<Rightarrow> None
      | first_span # others \<Rightarrow>
          Some \<lparr> ts_text = py_join (py '' '') (map ts_text spans),
                 ts_x_pos = ts_x_pos first_span,
                 ts_y_pos = ts_y_pos first_span,
                 ts_font_size = foldl max (ts_font_size first_span) (map ts_font_size others),
                 ts_is_bold = list_ex ts_is_bold spans,
                 ts_bbox = Some (case ts_bbox first_span of
                                   None \<Rightarrow> (0, 0, 0, 0) | Some b \<Rightarrow> b) \<rparr>)"

text \<open>\<open>if current_group: groups.append(merge_group(current_group))\<close>.\<close>

definition close_group :: "text_span list \<Rightarrow> text_span list \<Rightarrow> text_span list" where
  "close_group groups current_group =
     (if current_group = [] then groups
      else case merge_group current_group of
             None \<Rightarrow> groups
           | Some g \<Rightarrow> groups @ [g])"

text \<open>
  The loop over the sorted spans. The current group is never empty inside the loop, so
  it is carried as its members but the last (\<open>current_init\<close>) and its last member
  (\<open>last_span\<close>, the source's \<open>current_group[-1]\<close>).
\<close>

fun group_loop ::
  "rat \<Rightarrow> rat \<Rightarrow> text_span list \<Rightarrow> text_span list \<Rightarrow> text_span \<Rightarrow> text_span list
     \<Rightarrow> text_span list" where
  "group_loop line_threshold word_threshold groups current_init last_span [] =
     close_group groups (current_init @ [last_span])"
| "group_loop line_threshold word_threshold groups current_init last_span (spn # rest) =
     (let y_diff = \<bar>fsub (ts_y_pos spn) (ts_y_pos last_span)\<bar>;
          x_diff = fsub (ts_x_pos spn)
                     (case ts_bbox last_span of
                        Some (x0, y0, x1, y1) \<Rightarrow> x1
                      | None \<Rightarrow> ts_x_pos last_span)
      in if y_diff \<le> line_threshold \<and> x_diff \<le> word_threshold
         then group_loop line_threshold word_threshold groups
                (current_init @ [last_span]) spn rest
         else group_loop line_threshold word_threshold
                (close_group groups (current_init @ [last_span])) [] spn rest)"

definition group_text_spans :: "text_span list \<Rightarrow> rat \<Rightarrow> rat \<Rightarrow> text_span list" where
  "group_text_spans text_spans line_threshold word_threshold =
     (if text_spans = [] then []
      else case sort_key (\<lambda>x. (ts_y_pos x, ts_x_pos x)) text_spans of
             [] \<Rightarrow> []
           | first_span # rest \<Rightarrow>
               group_loop line_threshold word_threshold [] [] first_span rest)"

section \<open>The document as the extraction library presents it\<close>

text \<open>
  The PDF library is outside the repository; a document is modelled by what the source
  reads from it. A span of the library carries its text, font size, font name and
  bounding box; a line is its spans; a block has a type (0 for text) and its lines (none
  when the key is missing). Of a page the source reads \<open>get_text("dict")["blocks"]\<close>
  and \<open>get_text()\<close>, either of which may raise, and \<open>rect.height\<close>. Of a document
  it reads the pages (\<open>page_count\<close> is their number, \<open>load_page(n)\<close> the \<open>n\<close>-th)
  and the metadata title, which is \<open>None\<close> when the metadata holds no string there:
  calling \<open>strip\<close> on it raises.
\<close>

datatype py_error =
  OpenError | AttributeError | ZeroDivisionError | KeyError | TextError | UnicodeEncodeError

record raw_span =
  sp_text :: pystr
  sp_size :: rat
  sp_font :: pystr
  sp_bbox :: bbox

record line =
  ln_spans :: "raw_span list"

record block =
  blk_type :: int
  blk_lines :: "line list"

record page =
  pg_dict :: "py_error + block list"
  pg_text :: "py_error + pystr"
  pg_height :: rat

record doc =
  d_title :: "pystr option"
  d_pages :: "page list"

definition page_count :: "doc \<Rightarrow> nat" where
  "page_count d = length (d_pages d)"

definition extract_text_blocks :: "page \<Rightarrow> block list" where
  "extract_text_blocks pg =
     (case pg_dict pg of
        Inl e \<Rightarrow> []
      | Inr blocks \<Rightarrow>
          if blocks \<noteq> [] \<and> list_ex (\<lambda>b. blk_type b = 0 \<and> blk_lines b \<noteq> []) blocks
          then blocks else [])"

text \<open>The spans of the text blocks of a page, in the order of the three nested loops.\<close>

definition text_lines :: "page \<Rightarrow> line list" where
  "text_lines pg =
     concat (map blk_lines (filter (\<lambda>b. blk_type b = 0) (extract_text_blocks pg)))"

definition text_block_spans :: "page \<Rightarrow> raw_span list" where
  "text_block_spans pg = concat (map ln_spans (text_lines pg))"

definition is_bold_font :: "ucd \<Rightarrow> pystr \<Rightarrow> bool" where
  "is_bold_font U font = py_in (py ''bold'') (py_lower U font)"

section \<open>Title extraction (\<open>extract_title_from_pdf\<close>)\<close>

text \<open>\<open>s.replace(old, new)\<close>: the occurrences of \<open>old\<close> from the left, not overlapping.\<close>

function py_replace :: "pystr \<Rightarrow> pystr \<Rightarrow> pystr \<Rightarrow> pystr" where
  "py_replace old new [] = (if old = [] then new else [])"
| "py_replace old new (c # cs) =
     (if old = [] then new @ c # py_replace old new cs
      else if starts_with old (c # cs) then new @ py_replace old new (drop (length old) (c # cs))
      else c # py_replace old new cs)"
  by pat_completeness auto
termination
  by (relation "measure (\<lambda>(old, new, s). length s)") auto

text \<open>
  \<open>^(Page|Chapter|\d+\.?$|Table|Figure|Copyright|(c))\<close> with \<open>re.IGNORECASE\<close>, where
  \<open>(c)\<close> stands for the copyright sign U+00A9.
\<close>

definition pat_furniture :: "ucd \<Rightarrow> rx" where
  "pat_furniture U =
     seqs [Bol,
           alts [lit_i U (py ''Page''), lit_i U (py ''Chapter''),
                 seqs [rx_plus (re_digit U), rx_opt (ci U (one_of ''.'')), Eol],
                 lit_i U (py ''Table''), lit_i U (py ''Figure''), lit_i U (py ''Copyright''),
                 Cls (ci U (\<lambda>c. c = 169))]]"

text \<open>The spans of a page that the title search keeps: trimmed text of 3 characters or more.\<close>

definition title_spans :: "ucd \<Rightarrow> page \<Rightarrow> text_span list" where
  "title_spans U pg =
     map (\<lambda>s. \<lparr> ts_text = py_strip (sp_text s),
                 ts_x_pos = fst (sp_bbox s),
                 ts_y_pos = fst (snd (sp_bbox s)),
                 ts_font_size = sp_size s,
                 ts_is_bold = is_bold_font U (sp_font s),
                 ts_bbox = Some (sp_bbox s) \<rparr>)
       (filter (\<lambda>s. py_strip (sp_text s) \<noteq> [] \<and> 3 \<le> length (py_strip (sp_text s)))
          (text_block_spans pg))"

definition is_title_candidate :: "ucd \<Rightarrow> rat \<Rightarrow> rat \<Rightarrow> text_span \<Rightarrow> bool" where
  "is_title_candidate U page_height max_font grp =
     (ts_y_pos grp < page_height * (2 / 5)
      \<and> max_font * (9 / 10) \<le> ts_font_size grp
      \<and> \<not> re_match U (pat_furniture U) (ts_text grp)
      \<and> 2 \<le> length (py_split (ts_text grp))
      \<and> 8 \<le> length (ts_text grp)
      \<and> (let text_lower = py_lower U (ts_text grp)
         in py_in (py ''challenge'') text_lower \<or> py_in (py ''connecting'') text_lower
            \<or> py_in (py ''dots'') text_lower \<or> ts_font_size grp = max_font))"

text \<open>
  The clean-up of the best candidate. The three \<open>replace\<close> calls of the source all
  remove the double quote, code point 34.
\<close>

definition clean_title :: "pystr \<Rightarrow> pystr" where
  "clean_title t =
     (let title = collapse_ws (py_strip t);
          title = py_replace [34] [] (py_replace [34] [] (py_replace [34] [] title))
      in py_replace (py ''Welcome to the '') [] title)"

text \<open>The body of the loop over the first pages: the title found on one page, if any.\<close>

definition title_on_page :: "ucd \<Rightarrow> page \<Rightarrow> pystr option" where
  "title_on_page U pg =
     (case title_spans U pg of
        [] \<Rightarrow> None
      | s0 # ss \<Rightarrow>
          let text_spans = s0 # ss;
              grouped_spans = group_text_spans text_spans 5 20;
              page_height = pg_height pg;
              max_font = foldl max (ts_font_size s0) (map ts_font_size ss);
              title_candidates = filter (is_title_candidate U page_height max_font) grouped_spans
          in case sort_key (\<lambda>x. (- ts_font_size x, ts_y_pos x)) title_candidates of
               [] \<Rightarrow> None
             | best_candidate # others \<Rightarrow> Some (clean_title (ts_text best_candidate)))"

text \<open>
  The loop over the pages, given with their numbers. The result carries, besides title
  and components, the numbers of the pages the loop has loaded with \<open>doc.load_page\<close>.
\<close>

fun title_scan ::
  "ucd \<Rightarrow> nat list \<Rightarrow> (nat \<times> page) list \<Rightarrow> (pystr \<times> pystr list) \<times> nat list" where
  "title_scan U loaded [] = (([], []), loaded)"
| "title_scan U loaded ((page_num, pg) # rest) =
     (case title_on_page U pg of
        Some title \<Rightarrow> ((title, [title]), loaded @ [page_num])
      | None \<Rightarrow> title_scan U (loaded @ [page_num]) rest)"

definition extract_title_from_pdf ::
  "ucd \<Rightarrow> doc \<Rightarrow> py_error + ((pystr \<times> pystr list) \<times> nat list)" where
  "extract_title_from_pdf U d =
     (if page_count d = 0 then Inr (([], []), [])
      else case d_title d of
        None \<Rightarrow> Inl AttributeError
      | Some t \<Rightarrow>
          let metadata_title = py_strip t
          in if metadata_title \<noteq> [] \<and> 3 < length metadata_title
             then Inr ((metadata_title, [metadata_title]), [])
             else Inr (title_scan U [] (enumerate 0 (take (min 3 (page_count d)) (d_pages d)))))"

section \<open>Document statistics (\<open>analyze_document_structure\<close>)\<close>

text \<open>\<open>sorted(set(xs), reverse=True)\<close>.\<close>

definition unique_desc :: "rat list \<Rightarrow> rat list" where
  "unique_desc xs = rev (sort (remdups xs))"

definition analyze_document_structure :: "doc \<Rightarrow> py_error + doc_stats" where
  "analyze_document_structure d =
     (let spans = concat (map text_block_spans (take (min 5 (page_count d)) (d_pages d)));
          all_font_sizes = map sp_size spans;
          body_spans = filter (\<lambda>s. 10 < length (py_strip (sp_text s))) spans;
          font_sizes = map sp_size body_spans;
          text_lengths = map (\<lambda>s. length (py_strip (sp_text s))) body_spans
      in if font_sizes = [] then
           Inr \<lparr> ds_body_size = Some 12, ds_large_font_threshold = Some (3 / 2),
                 ds_medium_font_threshold = Some (6 / 5), ds_avg_text_length = None,
                 ds_font_sizes = None \<rparr>
         else
           let body_sz = sort font_sizes ! (length font_sizes div 2);
               unique_sizes = unique_desc all_font_sizes;
               avg_text_length =
                 (if text_lengths \<noteq> []
                  then of_nat (sum_list text_lengths) / of_nat (length text_lengths) else 50)
           in if 3 \<le> length unique_sizes then
                (if body_sz = 0 then Inl ZeroDivisionError
                 else
                   Inr \<lparr> ds_body_size = Some body_sz,
                         ds_large_font_threshold =
                           Some (max (7 / 5) (unique_sizes ! 0 / body_sz * (9 / 10))),
                         ds_medium_font_threshold =
                           Some (max (6 / 5) (unique_sizes ! 1 / body_sz * (9 / 10))),
                         ds_avg_text_length = Some avg_text_length,
                         ds_font_sizes = Some (take 5 unique_sizes) \<rparr>)
              else
                Inr \<lparr> ds_body_size = Some body_sz, ds_large_font_threshold = Some (3 / 2),
                      ds_medium_font_threshold = Some (6 / 5),
                      ds_avg_text_length = Some avg_text_length,
                      ds_font_sizes = Some (take 5 unique_sizes) \<rparr>)"

section \<open>The outline (\<open>extract_outline_from_pdf\<close>)\<close>

record heading_entry =
  he_level :: level
  he_text :: pystr
  he_page :: nat

record outline_result =
  or_title :: pystr
  or_outline :: "heading_entry list"

definition empty_result :: outline_result where
  "empty_result = \<lparr> or_title = [], or_outline = [] \<rparr>"

text \<open>
  \<open>sample_text\<close>: the first 1000 characters of the plain text of each of the first
  pages; \<open>page.get_text()\<close> may raise.
\<close>

fun sample_text :: "page list \<Rightarrow> py_error + pystr" where
  "sample_text [] = Inr []"
| "sample_text (pg # rest) =
     (case pg_text pg of
        Inl e \<Rightarrow> Inl e
      | Inr page_text \<Rightarrow>
          (case sample_text rest of
             Inl e \<Rightarrow> Inl e
           | Inr later \<Rightarrow> Inr (take 1000 page_text @ later)))"

text \<open>
  The body of the loop over the lines of a page: the entries (none or one) that a line
  adds to the outline.
\<close>

definition line_entries ::
  "ucd \<Rightarrow> pystr \<Rightarrow> pystr list \<Rightarrow> rat \<Rightarrow> language \<Rightarrow> doc_stats \<Rightarrow> nat \<Rightarrow> line
     \<Rightarrow> heading_entry list" where
  "line_entries U document_title title_components body_sz document_language doc_structure
       page_num text_line =
     (let shown = filter (\<lambda>s. py_strip (sp_text s) \<noteq> []) (ln_spans text_line);
          text_parts = map sp_text shown;
          max_size = foldl max 0 (map sp_size shown);
          is_bold = list_ex (\<lambda>s. is_bold_font U (sp_font s)) shown
      in if text_parts = [] then []
         else
           let text = py_strip (py_join (py '' '') text_parts)
           in if is_text_part_of_title U text document_title title_components then []
              else if is_valid_heading U text max_size is_bold body_sz document_language
                        (Some doc_structure)
              then [\<lparr> he_level = classify_heading_level U text max_size is_bold body_sz
                                    (Some doc_structure),
                      he_text = normalize_text U text document_language,
                      he_page = page_num + 1 \<rparr>]
              else [])"

definition page_entries ::
  "ucd \<Rightarrow> pystr \<Rightarrow> pystr list \<Rightarrow> rat \<Rightarrow> language \<Rightarrow> doc_stats \<Rightarrow> nat \<times> page
     \<Rightarrow> heading_entry list" where
  "page_entries U document_title title_components body_sz document_language doc_structure np =
     concat (map (line_entries U document_title title_components body_sz document_language
                    doc_structure (fst np))
               (text_lines (snd np)))"

text \<open>
  The console. \<open>print\<close> encodes its text for \<open>sys.stdout\<close> and raises
  \<open>UnicodeEncodeError\<close> when the text has a code point that the encoding of the stream
  cannot write; \<open>con_encodes\<close> holds of the code points it can write. The text
  \<open>str(e)\<close> of an exception is the runtime's and the library's: \<open>con_exc_text\<close>.
  \<open>py_print\<close> gives the exception that \<open>print\<close> raises, if any; the text is written
  with a newline after it.
\<close>

record console =
  con_encodes :: "nat \<Rightarrow> bool"
  con_exc_text :: "py_error \<Rightarrow> pystr"

definition py_print :: "console \<Rightarrow> pystr \<Rightarrow> py_error option" where
  "py_print C message =
     (if list_all (con_encodes C) (message @ [10]) then None else Some UnicodeEncodeError)"

text \<open>\<open>str(n)\<close> of a natural number: its decimal digits.\<close>

function py_str_nat :: "nat \<Rightarrow> pystr" where
  "py_str_nat n = (if n < 10 then [48 + n] else py_str_nat (n div 10) @ [48 + n mod 10])"
  by pat_completeness auto
termination
  by (relation "measure id") auto

declare py_str_nat.simps [simp del]

text \<open>The two f-strings that the function prints.\<close>

definition warning_message :: "pystr \<Rightarrow> nat \<Rightarrow> pystr" where
  "warning_message pdf_path n =
     py ''Warning: '' @ pdf_path @ py '' has '' @ py_str_nat n
       @ py '' pages, processing first 50 only''"

definition error_message :: "console \<Rightarrow> pystr \<Rightarrow> py_error \<Rightarrow> pystr" where
  "error_message C pdf_path e =
     py ''Error processing '' @ pdf_path @ py '': '' @ con_exc_text C e"

text \<open>
  The statements inside \<open>try\<close>, for a document that \<open>fitz.open\<close> has returned: the
  warning for a document of more than 50 pages, then the title, the statistics, the
  sample text and the outline.
\<close>

definition outline_of_doc :: "ucd \<Rightarrow> console \<Rightarrow> pystr \<Rightarrow> doc \<Rightarrow> py_error + outline_result" where
  "outline_of_doc U C pdf_path d =
     (case (if 50 < page_count d then py_print C (warning_message pdf_path (page_count d))
            else None) of
        Some e \<Rightarrow> Inl e
      | None \<Rightarrow>
     (case extract_title_from_pdf U d of
        Inl e \<Rightarrow> Inl e
      | Inr ((document_title, title_components), loaded) \<Rightarrow>
          (case analyze_document_structure d of
             Inl e \<Rightarrow> Inl e
           | Inr doc_structure \<Rightarrow>
               (case ds_body_size doc_structure of
                  None \<Rightarrow> Inl KeyError
                | Some body_sz \<Rightarrow>
                    (case sample_text (take (min 3 (page_count d)) (d_pages d)) of
                       Inl e \<Rightarrow> Inl e
                     | Inr sample \<Rightarrow>
                         let document_language = detect_language U sample;
                             outline =
                               concat (map (page_entries U document_title title_components
                                              body_sz document_language doc_structure)
                                         (enumerate 0 (take (min 50 (page_count d)) (d_pages d))))
                         in Inr \<lparr> or_title = document_title, or_outline = outline \<rparr>)))))"

text \<open>
  \<open>extract_outline_from_pdf\<close>. \<open>opened\<close> is what \<open>fitz.open(pdf_path)\<close> gives, a
  document or an exception. An exception raised inside \<open>try\<close> reaches the handler,
  which prints the error message and then returns the empty result. The \<open>print\<close> of
  the handler stands outside every \<open>try\<close>: an exception it raises leaves the function.
\<close>

definition extract_outline_from_pdf ::
  "ucd \<Rightarrow> console \<Rightarrow> pystr \<Rightarrow> py_error + doc \<Rightarrow> py_error + outline_result" where
  "extract_outline_from_pdf U C pdf_path opened =
     (case (case opened of Inl e \<Rightarrow> Inl e | Inr d \<Rightarrow> outline_of_doc U C pdf_path d) of
        Inr result \<Rightarrow> Inr result
      | Inl e \<Rightarrow>
          (case py_print C (error_message C pdf_path e) of
             Some raised \<Rightarrow> Inl raised
           | None \<Rightarrow> Inr empty_result))"

section \<open>Notions used to state the properties\<close>

text \<open>The tiers of the levels: \<open>H1\<close> is the highest.\<close>

fun level_rank :: "level \<Rightarrow> nat" where
  "level_rank H1 = 3"
| "level_rank H2 = 2"
| "level_rank H3 = 1"

text \<open>
  Two values of the character database, for evaluating the definitions on concrete
  input. \<open>ucd_plain\<close> has empty tables; on ASCII input no table is consulted.
  \<open>ucd_compose\<close> differs in its NFC, which composes the letter e (101) and a following
  combining acute accent (U+0301, 769) to U+00E9 (233): so does Unicode's NFC, and on
  text made of the code points 101, 769, 233, 8206 and whitespace it does nothing else.
\<close>

definition ucd_plain :: ucd where
  "ucd_plain =
     \<lparr> ucd_decimal = (\<lambda>c. False), ucd_isdigit = (\<lambda>c. False), ucd_alnum = (\<lambda>c. False),
       ucd_variants = (\<lambda>c. []), ucd_lower = (\<lambda>s. s), ucd_istitle = (\<lambda>s. False),
       ucd_isupper = (\<lambda>s. False), ucd_nfc = (\<lambda>s. s), ucd_name_has = (\<lambda>w c. False) \<rparr>"

fun compose_e_acute :: "pystr \<Rightarrow> pystr" where
  "compose_e_acute (a # b # cs) =
     (if a = 101 \<and> b = 769 then 233 # compose_e_acute cs
      else a # compose_e_acute (b # cs))"
| "compose_e_acute cs = cs"

definition ucd_compose :: ucd where
  "ucd_compose = ucd_plain \<lparr> ucd_nfc := compose_e_acute \<rparr>"

text \<open>
  Three spans of a page: "Hello" and, 5 points to its right on nearly the same line,
  "World"; and "Below", 40 points further down.
\<close>

definition span_hello :: text_span where
  "span_hello =
     \<lparr> ts_text = py ''Hello'', ts_x_pos = 0, ts_y_pos = 100, ts_font_size = 12,
       ts_is_bold = False, ts_bbox = Some (0, 100, 30, 112) \<rparr>"

definition span_world :: text_span where
  "span_world =
     \<lparr> ts_text = py ''World'', ts_x_pos = 35, ts_y_pos = 102, ts_font_size = 14,
       ts_is_bold = True, ts_bbox = Some (35, 102, 70, 116) \<rparr>"

definition span_below :: text_span where
  "span_below =
     \<lparr> ts_text = py ''Below'', ts_x_pos = 0, ts_y_pos = 140, ts_font_size = 12,
       ts_is_bold = False, ts_bbox = Some (0, 140, 30, 152) \<rparr>"

text \<open>
  Documents for evaluating the definitions. \<open>mk_span\<close> is a span of the given text and
  size in a regular font at the top left of the page; \<open>mk_page\<close> is a page of one text
  block with one line of the given spans, 800 points high, whose plain text can be read.
\<close>

definition mk_span :: "string \<Rightarrow> rat \<Rightarrow> raw_span" where
  "mk_span t sz =
     \<lparr> sp_text = py t, sp_size = sz, sp_font = py ''Helvetica'', sp_bbox = (72, 72, 300, 90) \<rparr>"

definition mk_page :: "raw_span list \<Rightarrow> page" where
  "mk_page spans =
     \<lparr> pg_dict = Inr [\<lparr> blk_type = 0, blk_lines = [\<lparr> ln_spans = spans \<rparr>] \<rparr>],
       pg_text = Inr (concat (map sp_text spans)),
       pg_height = 800 \<rparr>"

text \<open>
  \<open>doc_report\<close>: one page, metadata title "Annual Report 2023". \<open>doc_no_pages\<close>: the
  same metadata and no page. \<open>doc_padded\<close>: one page, the metadata title " ab  " of 5
  characters.
\<close>

definition doc_report :: doc where
  "doc_report =
     \<lparr> d_title = Some (py ''Annual Report 2023''),
       d_pages = [mk_page [mk_span ''Quarterly figures and outlook'' 11]] \<rparr>"

definition doc_no_pages :: doc where
  "doc_no_pages = \<lparr> d_title = Some (py ''Annual Report 2023''), d_pages = [] \<rparr>"

definition doc_padded :: doc where
  "doc_padded =
     \<lparr> d_title = Some (py '' ab  ''),
       d_pages = [mk_page [mk_span ''Quarterly figures and outlook'' 11]] \<rparr>"

text \<open>
  \<open>doc_labels\<close>: one page whose spans are all short labels, so none is a body candidate;
  it has no metadata title. \<open>doc_zero_size\<close>: one page with spans of three sizes, the
  only body candidate of size 0; its metadata title is "Annual Report 2023".
\<close>

definition doc_labels :: doc where
  "doc_labels =
     \<lparr> d_title = Some [],
       d_pages = [mk_page [mk_span ''Name'' 10, mk_span ''Date'' 14, mk_span ''Total'' 18]] \<rparr>"

definition doc_zero_size :: doc where
  "doc_zero_size =
     \<lparr> d_title = Some (py ''Annual Report 2023''),
       d_pages = [mk_page [mk_span ''A'' 10, mk_span ''B'' 14,
                           mk_span ''text drawn at size zero'' 0]] \<rparr>"

text \<open>
  \<open>console_utf8\<close>: a standard output in UTF-8, which writes every code point but the
  surrogates U+D800 to U+DFFF. The text it has for an exception is a fixed ASCII text;
  the texts of the exceptions of the runtime are ASCII. \<open>path_surrogate\<close> is the path
  \<open>"in/" + U+DCFF + ".pdf"\<close>, as the file system gives the name of a file whose name
  holds the byte 255; \<open>path_report\<close> is \<open>"in/report.pdf"\<close>.
\<close>

definition console_utf8 :: console where
  "console_utf8 =
     \<lparr> con_encodes = (\<lambda>c. \<not> (55296 \<le> c \<and> c \<le> 57343)),
       con_exc_text = (\<lambda>e. py ''error'') \<rparr>"

definition path_surrogate :: pystr where
  "path_surrogate = py ''in/'' @ [56575] @ py ''.pdf''"

definition path_report :: pystr where
  "path_report = py ''in/report.pdf''"

text \<open>
  Two spans whose \<open>y\<close> positions, \<open>- 2 ^ (- 60)\<close> and 5, are doubles that differ by a
  little more than 5, the second starting 2 points right of the first.
\<close>

definition span_low :: text_span where
  "span_low =
     \<lparr> ts_text = py ''Low'', ts_x_pos = 0, ts_y_pos = - (1 / 2 ^ 60), ts_font_size = 12,
       ts_is_bold = False, ts_bbox = Some (0, - (1 / 2 ^ 60), 10, 12) \<rparr>"

definition span_five :: text_span where
  "span_five =
     \<lparr> ts_text = py ''Five'', ts_x_pos = 12, ts_y_pos = 5, ts_font_size = 14,
       ts_is_bold = True, ts_bbox = Some (12, 5, 22, 19) \<rparr>"

text \<open>The text span that the title search builds from the span of the page of \<open>doc_report\<close>.\<close>

definition span_quarterly :: text_span where
  "span_quarterly =
     \<lparr> ts_text = py ''Quarterly figures and outlook'', ts_x_pos = 72, ts_y_pos = 72,
       ts_font_size = 11, ts_is_bold = False, ts_bbox = Some (72, 72, 300, 90) \<rparr>"

text \<open>
  A text is trimmed when it neither starts nor ends with whitespace. \<open>marked_text\<close>
  is the text \<open>" e" + U+0301 + "  " + U+200E + "x "\<close>.
\<close>

definition trimmed :: "pystr \<Rightarrow> bool" where
  "trimmed s = (s = [] \<or> (\<not> py_isspace (hd s) \<and> \<not> py_isspace (last s)))"

definition marked_text :: pystr where
  "marked_text = [32, 101, 769, 32, 32, 8206, 120, 32]"

section \<open>Evaluation rules\<close>

lemmas rx_eval =
  re_match_def re_search_def seqs_def lit_def lit_i_def words_i_def rx_plus_def rx_star_def
  rx_opt_def one_of_def upper_AZ_def ci_def case_variants_def re_digit_def re_word_def
  re_any_def py_def py_isspace_def ascii_isupper_def ascii_islower_def ascii_isdigit_def

lemmas str_eval =
  py_def py_strip_def py_lower_def is_ascii_def py_isspace_def ascii_lower_def
  ascii_isupper_def ascii_islower_def ascii_isdigit_def

section \<open>Title membership\<close>


text \<open>
  C10. \<open>is_text_part_of_title\<close> is false whenever the title is empty, and whenever the
  text is empty. So with an empty document title the loop body of the outline skips the
  title test: every line that has text goes to \<open>is_valid_heading\<close>, and is entered in the
  outline exactly when that accepts it.
\<close>

theorem titleless_no_suppression:
  "is_text_part_of_title U text [] title_components = False
   \<and> is_text_part_of_title U [] title title_components = False
   \<and> line_entries U [] title_components body_sz lang doc_structure page_num text_line =
       (let shown = filter (\<lambda>s. py_strip (sp_text s) \<noteq> []) (ln_spans text_line);
            text = py_strip (py_join (py '' '') (map sp_text shown));
            max_size = foldl max 0 (map sp_size shown);
            is_bold = list_ex (\<lambda>s. is_bold_font U (sp_font s)) shown
        in if shown = [] then []
           else if is_valid_heading U text max_size is_bold body_sz lang (Some doc_structure)
           then [\<lparr> he_level = classify_heading_level U text max_size is_bold body_sz
                                 (Some doc_structure),
                   he_text = normalize_text U text lang,
                   he_page = page_num + 1 \<rparr>]
           else [])"
  by (simp add: is_text_part_of_title_def line_entries_def Let_def)

section \<open>Heading level by pattern\<close>

text \<open>
  C7. Whatever the font size, the bold flag, the body size and the statistics,
  \<open>classify_heading_level\<close> gives H1 for "Chapter 1 Introduction", H2 for
  "2.1 Background" and H3 for "2.1.3 Setup".
\<close>

theorem classification_scenario:
  "classify_heading_level U (py ''Chapter 1 Introduction'') font_size is_bold body_sz
     document_stats = H1
   \<and> classify_heading_level U (py ''2.1 Background'') font_size is_bold body_sz
       document_stats = H2
   \<and> classify_heading_level U (py ''2.1.3 Setup'') font_size is_bold body_sz
       document_stats = H3"
  by (simp add: classify_heading_level_def pat_major_def pat_numbered_def pat_two_level_def
      pat_three_level_def rx_eval)

section \<open>Texts the validator excludes\<close>

lemma search_street: "re_search U (excl_street U) (py ''123 Main Street'')"
  by (simp add: excl_street_def rx_eval)

lemma search_phone: "re_search U (excl_phone U) (py ''(555) 123-4567'')"
  by (simp add: excl_phone_def rx_eval)

lemma search_page: "re_search U (excl_reference U) (py ''Page 3'')"
  by (simp add: excl_reference_def rx_eval)

lemma search_table: "re_search U (excl_reference U) (py ''Table 2'')"
  by (simp add: excl_reference_def rx_eval)

lemma excluded_not_valid:
  "re_search U pattern text \<Longrightarrow> pattern \<in> set (exclusion_patterns U) \<Longrightarrow>
   \<not> is_valid_heading U text font_size is_bold body_sz lang document_stats"
  by (auto simp: is_valid_heading_def list_ex_iff)

text \<open>
  C8. Whatever the font size, the bold flag, the body size, the script and the
  statistics, \<open>is_valid_heading\<close> rejects "123 Main Street", "(555) 123-4567", "Page 3"
  and "Table 2": the first matches the street pattern, the second the phone pattern, the
  last two the pattern of page, figure and table references.
\<close>

theorem validator_exclusions:
  "\<not> is_valid_heading U (py ''123 Main Street'') font_size is_bold body_sz lang document_stats
   \<and> \<not> is_valid_heading U (py ''(555) 123-4567'') font_size is_bold body_sz lang
         document_stats
   \<and> \<not> is_valid_heading U (py ''Page 3'') font_size is_bold body_sz lang document_stats
   \<and> \<not> is_valid_heading U (py ''Table 2'') font_size is_bold body_sz lang document_stats"
proof -
  have street: "excl_street U \<in> set (exclusion_patterns U)"
    and phone: "excl_phone U \<in> set (exclusion_patterns U)"
    and reference: "excl_reference U \<in> set (exclusion_patterns U)"
    by (simp_all add: exclusion_patterns_def)
  show ?thesis
    using excluded_not_valid [OF search_street street]
      excluded_not_valid [OF search_phone phone]
      excluded_not_valid [OF search_page reference]
      excluded_not_valid [OF search_table reference]
    by blast
qed

section \<open>Monotonicity in the font size\<close>

lemma of_bool_mono_nat: "(a \<Longrightarrow> b) \<Longrightarrow> (of_bool a :: nat) \<le> of_bool b"
  by (cases a; cases b) auto

lemma font_ratio_mono:
  fixes font_size font_size' body_sz :: rat
  assumes "font_size \<le> font_size'"
  shows "(if 0 < body_sz then font_size / body_sz else 1)
         \<le> (if 0 < body_sz then font_size' / body_sz else 1)"
  using assms by (simp add: divide_right_mono)

lemma font_score_mono:
  assumes "font_size \<le> font_size'"
  shows "font_score font_size is_bold body_sz document_stats
         \<le> font_score font_size' is_bold body_sz document_stats"
proof -
  let ?r = "if 0 < body_sz then font_size / body_sz else 1"
  let ?r' = "if 0 < body_sz then font_size' / body_sz else 1"
  have r: "?r \<le> ?r'" by (rule font_ratio_mono [OF assms])
  have large: "(of_bool (t \<le> ?r) :: nat) \<le> of_bool (t \<le> ?r')" for t
    using r by (intro of_bool_mono_nat) (rule order_trans)
  have notable: "(of_bool (t \<le> ?r \<and> is_bold) :: nat) \<le> of_bool (t \<le> ?r' \<and> is_bold)"
    for t
    using r by (intro of_bool_mono_nat) (auto intro: order_trans)
  show ?thesis
    unfolding font_score_def Let_def
    by (intro add_mono mult_le_mono1 large notable order_refl)
qed

lemma tier_mono:
  fixes r r' :: rat
  assumes "r \<le> r'"
  shows "level_rank (if L \<le> r \<or> (L' \<le> r \<and> b) then H1
                     else if M \<le> r \<or> (M' \<le> r \<and> b) then H2 else H3)
         \<le> level_rank (if L \<le> r' \<or> (L' \<le> r' \<and> b) then H1
                        else if M \<le> r' \<or> (M' \<le> r' \<and> b) then H2 else H3)"
  using assms by auto

lemma absolute_mono:
  fixes r r' :: rat
  assumes "r \<le> r'"
  shows "level_rank (if b \<and> 14 \<le> r then H1 else if b \<or> 12 \<le> r then H2 else H3)
         \<le> level_rank (if b \<and> 14 \<le> r' then H1 else if b \<or> 12 \<le> r' then H2 else H3)"
  using assms by auto

lemma classify_by_font_mono:
  assumes "font_size \<le> font_size'"
  shows "level_rank (classify_by_font font_size is_bold body_sz document_stats)
         \<le> level_rank (classify_by_font font_size' is_bold body_sz document_stats)"
proof (cases "0 < body_sz")
  case True
  then have r: "font_size / body_sz \<le> font_size' / body_sz"
    using assms by (simp add: divide_right_mono)
  show ?thesis
  proof (cases "stats_given document_stats")
    case given: True
    show ?thesis
      unfolding classify_by_font_def Let_def
      by (simp only: True given simp_thms if_True) (rule tier_mono [OF r])
  next
    case not_given: False
    show ?thesis
      unfolding classify_by_font_def Let_def
      by (simp only: True not_given simp_thms if_True if_False) (rule tier_mono [OF r])
  qed
next
  case False
  show ?thesis
    unfolding classify_by_font_def Let_def
    by (simp only: False simp_thms if_False) (rule absolute_mono [OF assms])
qed

text \<open>
  C4. For every text, bold flag, body size, script and statistics: when only the font
  size grows, the sum of the content score and the font score that \<open>is_valid_heading\<close>
  compares with the required score does not decrease, and the level that
  \<open>classify_heading_level\<close> returns does not move to a lower tier. (Sizes are exact
  rationals here.)
\<close>

theorem font_size_monotone:
  assumes "font_size \<le> font_size'"
  shows "content_score U text lang + font_score font_size is_bold body_sz document_stats
         \<le> content_score U text lang + font_score font_size' is_bold body_sz document_stats
       \<and> level_rank (classify_heading_level U text font_size is_bold body_sz document_stats)
         \<le> level_rank
             (classify_heading_level U text font_size' is_bold body_sz document_stats)"
proof
  show "content_score U text lang + font_score font_size is_bold body_sz document_stats
        \<le> content_score U text lang + font_score font_size' is_bold body_sz document_stats"
    using font_score_mono [OF assms] by simp
  show "level_rank (classify_heading_level U text font_size is_bold body_sz document_stats)
        \<le> level_rank
            (classify_heading_level U text font_size' is_bold body_sz document_stats)"
    using classify_by_font_mono [OF assms]
    by (simp add: classify_heading_level_def Let_def)
qed

text \<open>
  The bold line "Overview" over a body size of 10: at size 12 the font score is 5 and the
  level H2, at size 13 the font score is 9 and the level H1.
\<close>

lemma overview_scores:
  "font_score 12 True 10 None = 5 \<and> font_score 13 True 10 None = 9
   \<and> classify_heading_level ucd_plain (py ''Overview'') 12 True 10 None = H2
   \<and> classify_heading_level ucd_plain (py ''Overview'') 13 True 10 None = H1"
  by (simp add: font_score_def stats_given_def classify_heading_level_def classify_by_font_def
      pat_major_def pat_numbered_def pat_two_level_def pat_three_level_def rx_eval)

theorem font_size_monotone_witness:
  "(12 :: rat) \<le> 13
   \<and> content_score ucd_plain (py ''Overview'') Latin + font_score 12 True 10 None
     \<le> content_score ucd_plain (py ''Overview'') Latin + font_score 13 True 10 None
   \<and> level_rank (classify_heading_level ucd_plain (py ''Overview'') 12 True 10 None)
     \<le> level_rank (classify_heading_level ucd_plain (py ''Overview'') 13 True 10 None)"
proof -
  have h: "(12 :: rat) \<le> 13" by simp
  show ?thesis
    using h font_size_monotone [of 12 13 ucd_plain "py ''Overview''" Latin True 10 None]
    by blast
qed

section \<open>Grouping two spans\<close>

text \<open>
  Rounding a difference to a double does not carry it across a whole number below
  \<open>2 ^ 52\<close>: such a number is itself a double.
\<close>

lemma bit_length_upper: "0 \<le> k \<Longrightarrow> k < 2 ^ bit_length k"
proof (induction k rule: bit_length.induct)
  case (1 k)
  show ?case
  proof (cases "k \<le> 0")
    case True
    with 1 show ?thesis by (simp add: bit_length.simps)
  next
    case False
    then have "k div 2 < 2 ^ bit_length (k div 2)"
      using "1.IH" by simp
    then have "k < 2 * 2 ^ bit_length (k div 2)" by linarith
    with False show ?thesis by (simp add: bit_length.simps [of k])
  qed
qed

lemma bit_length_lower: "0 < k \<Longrightarrow> 2 ^ (bit_length k - 1) \<le> k"
proof (induction k rule: bit_length.induct)
  case (1 k)
  then have pos: "\<not> k \<le> 0" by simp
  show ?case
  proof (cases "k div 2 \<le> 0")
    case True
    then have "bit_length (k div 2) = 0" by (simp add: bit_length.simps)
    with pos "1.prems" show ?thesis by (simp add: bit_length.simps [of k])
  next
    case False
    then have ih: "2 ^ (bit_length (k div 2) - 1) \<le> k div 2"
      using "1.IH" [OF pos] by simp
    from False have "bit_length (k div 2) \<noteq> 0" by (simp add: bit_length.simps [of "k div 2"])
    then obtain m where m: "bit_length (k div 2) = Suc m" by (cases "bit_length (k div 2)") auto
    from ih m have "2 * 2 ^ m \<le> k" by simp
    with pos m show ?thesis by (simp add: bit_length.simps [of k])
  qed
qed

lemma pow2_neg: "power_int (2 :: rat) (- int c) = 1 / 2 ^ c"
  by (simp only: power_int_minus power_int_of_nat inverse_eq_divide)

lemma floor_log2_ge1:
  assumes "1 \<le> x"
  shows "power_int 2 (floor_log2 x) \<le> x"
proof -
  have fl: "0 < \<lfloor>x\<rfloor>" using assms by simp
  then have b: "bit_length \<lfloor>x\<rfloor> \<noteq> 0" by (simp add: bit_length.simps [of "\<lfloor>x\<rfloor>"])
  have "(2 :: int) ^ (bit_length \<lfloor>x\<rfloor> - 1) \<le> \<lfloor>x\<rfloor>"
    using fl by (rule bit_length_lower)
  then have "(of_int ((2 :: int) ^ (bit_length \<lfloor>x\<rfloor> - 1)) :: rat) \<le> of_int \<lfloor>x\<rfloor>"
    by (simp only: of_int_le_iff)
  also have "\<dots> \<le> x" by (rule of_int_floor_le)
  finally have p: "(2 :: rat) ^ (bit_length \<lfloor>x\<rfloor> - 1) \<le> x" by simp
  have e: "int (bit_length \<lfloor>x\<rfloor>) - 1 = int (bit_length \<lfloor>x\<rfloor> - 1)"
    using b by simp
  have "floor_log2 x = int (bit_length \<lfloor>x\<rfloor> - 1)"
    using assms e by (simp only: floor_log2_def if_True)
  then show ?thesis
    using p by (simp only: power_int_of_nat)
qed

lemma floor_log2_lt1:
  assumes "0 < x" and "\<not> 1 \<le> x"
  shows "power_int 2 (floor_log2 x) \<le> x"
proof -
  define c where "c = bit_length (\<lceil>1 / x\<rceil> - 1)"
  have inv: "0 < 1 / x" using assms(1) by simp
  have a: "1 / x \<le> of_int \<lceil>1 / x\<rceil>" by (rule le_of_int_ceiling)
  have "0 < \<lceil>1 / x\<rceil>" using inv by (simp only: zero_less_ceiling)
  then have "0 \<le> \<lceil>1 / x\<rceil> - 1" by linarith
  then have "\<lceil>1 / x\<rceil> - 1 < 2 ^ c"
    unfolding c_def by (rule bit_length_upper)
  then have "\<lceil>1 / x\<rceil> \<le> 2 ^ c" by linarith
  then have "(of_int \<lceil>1 / x\<rceil> :: rat) \<le> of_int (2 ^ c)" by (simp only: of_int_le_iff)
  with a have "1 / x \<le> of_int (2 ^ c)" by (rule order_trans)
  then have b: "1 / x \<le> 2 ^ c" by simp
  have "1 \<le> 2 ^ c * x"
    using b assms(1) by (simp only: pos_divide_le_eq)
  then have "1 \<le> x * 2 ^ c" by (simp only: mult.commute)
  then have "1 / 2 ^ c \<le> x"
    by (simp only: pos_divide_le_eq zero_less_power zero_less_numeral)
  moreover have "floor_log2 x = - int c"
    using assms(2) by (simp only: floor_log2_def c_def if_False)
  ultimately show ?thesis
    by (simp only: pow2_neg)
qed

lemma floor_log2_lower:
  assumes "0 < x"
  shows "power_int 2 (floor_log2 x) \<le> x"
  using assms floor_log2_ge1 floor_log2_lt1 by blast

lemma round_even_le:
  assumes "r \<le> of_int M"
  shows "round_even r \<le> M"
proof -
  have f: "\<lfloor>r\<rfloor> \<le> M"
    using assms by (simp add: floor_le_iff)
  have g: "\<lfloor>r\<rfloor> < M" if "1 / 2 \<le> r - of_int \<lfloor>r\<rfloor>"
  proof -
    from that have "of_int \<lfloor>r\<rfloor> < r" by linarith
    with assms have "(of_int \<lfloor>r\<rfloor> :: rat) < of_int M" by linarith
    then show ?thesis by (simp only: of_int_less_iff)
  qed
  show ?thesis
  proof (cases "r - of_int \<lfloor>r\<rfloor> < 1 / 2")
    case True
    with f show ?thesis by (simp add: round_even_def Let_def)
  next
    case False
    then have "\<lfloor>r\<rfloor> < M" using g by simp
    then have "\<lfloor>r\<rfloor> + 1 \<le> M" by simp
    with f False show ?thesis by (simp add: round_even_def Let_def)
  qed
qed

lemma round_even_ge: "of_int M \<le> r \<Longrightarrow> M \<le> round_even r"
proof -
  assume "of_int M \<le> r"
  then have "M \<le> \<lfloor>r\<rfloor>" by (simp add: le_floor_iff)
  then show ?thesis by (auto simp: round_even_def Let_def)
qed

lemma ulp_of_small:
  assumes "0 < x" and "x \<le> of_int N" and "N < 2 ^ 52"
  obtains k where "power_int 2 (max (floor_log2 x) (- 1022) - 52) = 1 / (2 :: rat) ^ k"
proof -
  have "power_int (2 :: rat) (floor_log2 x) \<le> x" using assms(1) by (rule floor_log2_lower)
  also have "\<dots> \<le> of_int N" by fact
  also have "\<dots> < of_int (2 ^ 52)" using assms(3) by (simp only: of_int_less_iff)
  finally have "power_int (2 :: rat) (floor_log2 x) < of_int (2 ^ 52)" .
  moreover have "(of_int ((2 :: int) ^ 52) :: rat) = power_int 2 (int 52)"
    by (simp only: power_int_of_nat of_int_power of_int_numeral)
  ultimately have lt: "power_int (2 :: rat) (floor_log2 x) < power_int 2 (int 52)"
    by (simp only:)
  have "floor_log2 x < int 52"
  proof (rule power_int_le_imp_less_exp [OF _ lt])
    show "(1 :: rat) < 2" by simp
    show "0 \<le> int 52" by simp
  qed
  then have neg: "max (floor_log2 x) (- 1022) - 52 \<le> 0" by simp
  define k where "k = nat (- (max (floor_log2 x) (- 1022) - 52))"
  have k: "max (floor_log2 x) (- 1022) - 52 = - int k"
    using neg by (simp add: k_def)
  have "power_int (2 :: rat) (max (floor_log2 x) (- 1022) - 52) = 1 / 2 ^ k"
    unfolding k by (rule pow2_neg)
  then show ?thesis by (rule that)
qed

lemma round_double_le:
  assumes "x \<le> of_int N" and "0 \<le> N" and "N < 2 ^ 52"
  shows "round_double x \<le> of_int N"
proof -
  consider "x = 0" | "x < 0" | "0 < x" by linarith
  then show ?thesis
  proof cases
    case 1
    with assms show ?thesis by (simp add: round_double_def)
  next
    case 2
    define u :: rat where "u = power_int 2 (max (floor_log2 \<bar>x\<bar>) (- 1022) - 52)"
    have u: "0 < u" by (simp add: u_def)
    then have "x / u \<le> of_int 0" using 2 by (simp add: divide_le_0_iff)
    then have "round_even (x / u) \<le> 0" by (rule round_even_le)
    then have "of_int (round_even (x / u)) * u \<le> 0"
      using u by (simp add: mult_le_0_iff)
    with 2 assms show ?thesis by (simp add: round_double_def u_def Let_def)
  next
    case 3
    then have ax: "\<bar>x\<bar> = x" by simp
    obtain k where k: "power_int 2 (max (floor_log2 x) (- 1022) - 52) = 1 / (2 :: rat) ^ k"
      using ulp_of_small [OF 3 assms(1) assms(3)] by blast
    have "x / (1 / 2 ^ k) \<le> of_int (N * 2 ^ k)"
      using assms(1) by (simp add: mult_right_mono)
    then have "round_even (x / (1 / 2 ^ k)) \<le> N * 2 ^ k" by (rule round_even_le)
    then have "(of_int (round_even (x / (1 / 2 ^ k))) :: rat) \<le> of_int (N * 2 ^ k)"
      by (simp only: of_int_le_iff)
    then have "of_int (round_even (x / (1 / 2 ^ k))) * (1 / 2 ^ k) \<le> (of_int N :: rat)"
      by (simp add: field_simps)
    with 3 show ?thesis by (simp add: round_double_def ax k Let_def)
  qed
qed

lemma round_double_ge:
  assumes "- of_int N \<le> x" and "0 \<le> N" and "N < 2 ^ 52"
  shows "- of_int N \<le> round_double x"
proof -
  consider "x = 0" | "0 < x" | "x < 0" by linarith
  then show ?thesis
  proof cases
    case 1
    with assms show ?thesis by (simp add: round_double_def)
  next
    case 2
    define u :: rat where "u = power_int 2 (max (floor_log2 \<bar>x\<bar>) (- 1022) - 52)"
    have u: "0 < u" by (simp add: u_def)
    then have "of_int 0 \<le> x / u" using 2 by simp
    then have "0 \<le> round_even (x / u)" by (rule round_even_ge)
    then have "0 \<le> of_int (round_even (x / u)) * u"
      using u by simp
    with 2 assms show ?thesis by (simp add: round_double_def u_def Let_def)
  next
    case 3
    then have ax: "\<bar>x\<bar> = - x" and pos: "0 < - x" by simp_all
    have le: "- x \<le> of_int N" using assms(1) by simp
    obtain k where k: "power_int 2 (max (floor_log2 (- x)) (- 1022) - 52) = 1 / (2 :: rat) ^ k"
      using ulp_of_small [OF pos le assms(3)] by blast
    have "of_int (- (N * 2 ^ k)) \<le> x / (1 / 2 ^ k)"
      using assms(1) mult_right_mono [of "- of_int N" x "2 ^ k"] by simp
    then have "- (N * 2 ^ k) \<le> round_even (x / (1 / 2 ^ k))" by (rule round_even_ge)
    then have "(of_int (- (N * 2 ^ k)) :: rat) \<le> of_int (round_even (x / (1 / 2 ^ k)))"
      by (simp only: of_int_le_iff)
    then have "- (of_int N :: rat) \<le> of_int (round_even (x / (1 / 2 ^ k))) * (1 / 2 ^ k)"
      by (simp add: field_simps)
    with 3 show ?thesis by (simp add: round_double_def ax k Let_def)
  qed
qed

lemma fsub_abs_le_5: "\<bar>a - b\<bar> \<le> 5 \<Longrightarrow> \<bar>fsub a b\<bar> \<le> 5"
  using round_double_le [of "a - b" 5] round_double_ge [of 5 "a - b"]
  by (simp add: fsub_def abs_le_iff)

lemma fsub_le_20: "a - b \<le> 20 \<Longrightarrow> fsub a b \<le> 20"
  using round_double_le [of "a - b" 20] by (simp add: fsub_def)

lemma sort_two:
  "sort_key f [a, b] = (if f a \<le> f b then [a, b] else [b, a])"
  by simp

lemma walk_order:
  assumes "text_spans = [a, b] \<and> (ts_y_pos a, ts_x_pos a) \<le> (ts_y_pos b, ts_x_pos b)
           \<or> text_spans = [b, a] \<and> (ts_y_pos a, ts_x_pos a) < (ts_y_pos b, ts_x_pos b)"
  shows "group_text_spans text_spans lt wt = group_loop lt wt [] [] a [b]"
  using assms
  by (auto simp: group_text_spans_def sort_two
      simp del: sort_key_simps less_eq_prod_simp less_prod_simp)

text \<open>What the loop does with two spans, by the two differences it computes.\<close>

lemma two_span_loop:
  assumes "ts_bbox a = Some (x0, y0, x1, y1)"
  shows "group_loop 5 20 [] [] a [b] =
           (if \<bar>fsub (ts_y_pos b) (ts_y_pos a)\<bar> \<le> 5 \<and> fsub (ts_x_pos b) x1 \<le> 20
            then [\<lparr> ts_text = ts_text a @ py '' '' @ ts_text b,
                     ts_x_pos = ts_x_pos a, ts_y_pos = ts_y_pos a,
                     ts_font_size = max (ts_font_size a) (ts_font_size b),
                     ts_is_bold = (ts_is_bold a \<or> ts_is_bold b),
                     ts_bbox = Some (x0, y0, x1, y1) \<rparr>]
            else [a, b \<lparr> ts_bbox := Some (case ts_bbox b of
                                            None \<Rightarrow> (0, 0, 0, 0) | Some box \<Rightarrow> box) \<rparr>])"
  using assms by (simp add: close_group_def merge_group_def Let_def)

text \<open>
  C6, as the code has it. An input of two spans is walked in the order of \<open>(y, x)\<close>,
  the input order deciding a tie: \<open>a\<close> is the span walked first and \<open>b\<close> the
  second, whichever way round the input gives them, and \<open>x1\<close> is the right edge of the
  bounding box of \<open>a\<close>. With the default thresholds 5 and 20:
  when the \<open>y\<close> positions differ by at most 5 and the gap from \<open>x1\<close> to the \<open>x\<close>
  of \<open>b\<close> is at most 20, the result is one group, with the two texts joined by a space,
  the position and the bounding box of \<open>a\<close>, the larger font size, and bold if either
  span is;
  when the difference of the \<open>y\<close> positions, as the code computes it in floating
  point, is more than 5, the result is two groups, one of each span;
  the empty input gives the empty output.
\<close>

theorem two_spans_grouped:
  assumes walk:
      "text_spans = [a, b] \<and> (ts_y_pos a, ts_x_pos a) \<le> (ts_y_pos b, ts_x_pos b)
       \<or> text_spans = [b, a] \<and> (ts_y_pos a, ts_x_pos a) < (ts_y_pos b, ts_x_pos b)"
    and edge: "ts_bbox a = Some (x0, y0, x1, y1)"
  shows "(\<bar>ts_y_pos b - ts_y_pos a\<bar> \<le> 5 \<and> ts_x_pos b - x1 \<le> 20 \<longrightarrow>
            group_text_spans text_spans 5 20 =
              [\<lparr> ts_text = ts_text a @ py '' '' @ ts_text b,
                  ts_x_pos = ts_x_pos a, ts_y_pos = ts_y_pos a,
                  ts_font_size = max (ts_font_size a) (ts_font_size b),
                  ts_is_bold = (ts_is_bold a \<or> ts_is_bold b),
                  ts_bbox = Some (x0, y0, x1, y1) \<rparr>])
       \<and> (5 < \<bar>fsub (ts_y_pos b) (ts_y_pos a)\<bar> \<longrightarrow>
            group_text_spans text_spans 5 20 =
              [a, b \<lparr> ts_bbox := Some (case ts_bbox b of
                                         None \<Rightarrow> (0, 0, 0, 0) | Some box \<Rightarrow> box) \<rparr>])
       \<and> group_text_spans [] 5 20 = []"
proof (intro conjI impI)
  assume near: "\<bar>ts_y_pos b - ts_y_pos a\<bar> \<le> 5 \<and> ts_x_pos b - x1 \<le> 20"
  then have "\<bar>fsub (ts_y_pos b) (ts_y_pos a)\<bar> \<le> 5" and "fsub (ts_x_pos b) x1 \<le> 20"
    by (simp_all add: fsub_abs_le_5 fsub_le_20)
  then show "group_text_spans text_spans 5 20 =
      [\<lparr> ts_text = ts_text a @ py '' '' @ ts_text b,
          ts_x_pos = ts_x_pos a, ts_y_pos = ts_y_pos a,
          ts_font_size = max (ts_font_size a) (ts_font_size b),
          ts_is_bold = (ts_is_bold a \<or> ts_is_bold b),
          ts_bbox = Some (x0, y0, x1, y1) \<rparr>]"
    unfolding walk_order [OF walk] two_span_loop [OF edge] by simp
next
  assume "5 < \<bar>fsub (ts_y_pos b) (ts_y_pos a)\<bar>"
  then show "group_text_spans text_spans 5 20 =
      [a, b \<lparr> ts_bbox := Some (case ts_bbox b of
                                 None \<Rightarrow> (0, 0, 0, 0) | Some box \<Rightarrow> box) \<rparr>]"
    unfolding walk_order [OF walk] two_span_loop [OF edge] by simp
next
  show "group_text_spans [] 5 20 = []"
    by (simp add: group_text_spans_def)
qed

text \<open>Three subtractions, evaluated.\<close>

lemma fsub_below: "fsub 140 100 = 40"
  by code_simp

lemma fsub_low: "fsub 5 (- (1 / 2 ^ 60)) = 5"
  by code_simp

lemma fsub_gap: "fsub 12 10 = 2"
  by code_simp

text \<open>
  "Hello" and "World" merge to "Hello World", in either input order; "Below" and "Hello"
  stay apart.
\<close>

theorem two_spans_grouped_witness:
  "group_text_spans [span_hello, span_world] 5 20 =
     [\<lparr> ts_text = py ''Hello World'', ts_x_pos = 0, ts_y_pos = 100, ts_font_size = 14,
         ts_is_bold = True, ts_bbox = Some (0, 100, 30, 112) \<rparr>]
   \<and> group_text_spans [span_world, span_hello] 5 20 =
     [\<lparr> ts_text = py ''Hello World'', ts_x_pos = 0, ts_y_pos = 100, ts_font_size = 14,
         ts_is_bold = True, ts_bbox = Some (0, 100, 30, 112) \<rparr>]
   \<and> group_text_spans [span_below, span_hello] 5 20 = [span_hello, span_below]"
proof -
  have w1: "[span_hello, span_world] = [span_hello, span_world]
              \<and> (ts_y_pos span_hello, ts_x_pos span_hello)
                \<le> (ts_y_pos span_world, ts_x_pos span_world)
            \<or> [span_hello, span_world] = [span_world, span_hello]
              \<and> (ts_y_pos span_hello, ts_x_pos span_hello)
                < (ts_y_pos span_world, ts_x_pos span_world)"
    by (simp add: span_hello_def span_world_def)
  have w2: "[span_world, span_hello] = [span_hello, span_world]
              \<and> (ts_y_pos span_hello, ts_x_pos span_hello)
                \<le> (ts_y_pos span_world, ts_x_pos span_world)
            \<or> [span_world, span_hello] = [span_world, span_hello]
              \<and> (ts_y_pos span_hello, ts_x_pos span_hello)
                < (ts_y_pos span_world, ts_x_pos span_world)"
    by (simp add: span_hello_def span_world_def)
  have w3: "[span_below, span_hello] = [span_hello, span_below]
              \<and> (ts_y_pos span_hello, ts_x_pos span_hello)
                \<le> (ts_y_pos span_below, ts_x_pos span_below)
            \<or> [span_below, span_hello] = [span_below, span_hello]
              \<and> (ts_y_pos span_hello, ts_x_pos span_hello)
                < (ts_y_pos span_below, ts_x_pos span_below)"
    by (simp add: span_hello_def span_below_def)
  have e: "ts_bbox span_hello = Some (0, 100, 30, 112)"
    by (simp add: span_hello_def)
  have near: "\<bar>ts_y_pos span_world - ts_y_pos span_hello\<bar> \<le> 5
              \<and> ts_x_pos span_world - 30 \<le> 20"
    by (simp add: span_hello_def span_world_def)
  have far: "5 < \<bar>fsub (ts_y_pos span_below) (ts_y_pos span_hello)\<bar>"
    by (simp add: span_hello_def span_below_def fsub_below)
  have merged: "\<lparr> ts_text = ts_text span_hello @ py '' '' @ ts_text span_world,
                   ts_x_pos = ts_x_pos span_hello, ts_y_pos = ts_y_pos span_hello,
                   ts_font_size = max (ts_font_size span_hello) (ts_font_size span_world),
                   ts_is_bold = (ts_is_bold span_hello \<or> ts_is_bold span_world),
                   ts_bbox = Some (0, 100, 30, 112) \<rparr>
                = \<lparr> ts_text = py ''Hello World'', ts_x_pos = 0, ts_y_pos = 100,
                    ts_font_size = 14, ts_is_bold = True, ts_bbox = Some (0, 100, 30, 112) \<rparr>"
    by (simp add: span_hello_def span_world_def py_def)
  have kept: "span_below \<lparr> ts_bbox := Some (case ts_bbox span_below of
                               None \<Rightarrow> (0, 0, 0, 0) | Some box \<Rightarrow> box) \<rparr> = span_below"
    by (simp add: span_below_def)
  show ?thesis
    using two_spans_grouped [OF w1 e] two_spans_grouped [OF w2 e]
      two_spans_grouped [OF w3 e] near far
    unfolding merged kept by blast
qed

text \<open>
  The claim as the specification states it fails where it says that spans whose \<open>y\<close>
  positions differ by more than 5 never merge. The positions \<open>- 2 ^ (- 60)\<close> and 5
  differ by \<open>5 + 2 ^ (- 60)\<close>; the nearest double to that is 5, so the difference that
  the code compares with the threshold is 5, and the two spans merge.
\<close>

theorem two_spans_counterexample:
  "5 < \<bar>ts_y_pos span_five - ts_y_pos span_low\<bar>
   \<and> group_text_spans [span_low, span_five] 5 20 =
       [\<lparr> ts_text = py ''Low Five'', ts_x_pos = 0, ts_y_pos = - (1 / 2 ^ 60),
           ts_font_size = 14, ts_is_bold = True,
           ts_bbox = Some (0, - (1 / 2 ^ 60), 10, 12) \<rparr>]"
proof -
  have w: "[span_low, span_five] = [span_low, span_five]
             \<and> (ts_y_pos span_low, ts_x_pos span_low) \<le> (ts_y_pos span_five, ts_x_pos span_five)
           \<or> [span_low, span_five] = [span_five, span_low]
             \<and> (ts_y_pos span_low, ts_x_pos span_low) < (ts_y_pos span_five, ts_x_pos span_five)"
    by (simp add: span_low_def span_five_def)
  have e: "ts_bbox span_low = Some (0, - (1 / 2 ^ 60), 10, 12)"
    by (simp add: span_low_def)
  have y: "fsub (ts_y_pos span_five) (ts_y_pos span_low) = 5"
    using fsub_low by (simp add: span_low_def span_five_def)
  have x: "fsub (ts_x_pos span_five) 10 = 2"
    using fsub_gap by (simp add: span_five_def)
  have "group_text_spans [span_low, span_five] 5 20 =
      [\<lparr> ts_text = ts_text span_low @ py '' '' @ ts_text span_five,
          ts_x_pos = ts_x_pos span_low, ts_y_pos = ts_y_pos span_low,
          ts_font_size = max (ts_font_size span_low) (ts_font_size span_five),
          ts_is_bold = (ts_is_bold span_low \<or> ts_is_bold span_five),
          ts_bbox = Some (0, - (1 / 2 ^ 60), 10, 12) \<rparr>]"
    unfolding walk_order [OF w] two_span_loop [OF e] y x by simp
  then show ?thesis
    by (simp add: span_low_def span_five_def py_def)
qed

section \<open>Statistics of a document without body text\<close>

lemmas doc_eval =
  mk_span_def mk_page_def page_count_def extract_text_blocks_def text_lines_def
  text_block_spans_def

text \<open>
  C3. When no sampled span has a trimmed text of more than 10 characters,
  \<open>analyze_document_structure\<close> returns the body size 12 and the thresholds 1.5 and 1.2,
  and the dict it returns has no key \<open>avg_text_length\<close> (and none \<open>font_sizes\<close>): the
  function returns before the statement that would set the average to 50.
\<close>

theorem analyze_without_body_candidates:
  assumes "list_all (\<lambda>s. length (py_strip (sp_text s)) \<le> 10)
             (concat (map text_block_spans (take (min 5 (page_count d)) (d_pages d))))"
  shows "analyze_document_structure d =
           Inr \<lparr> ds_body_size = Some 12, ds_large_font_threshold = Some (3 / 2),
                 ds_medium_font_threshold = Some (6 / 5), ds_avg_text_length = None,
                 ds_font_sizes = None \<rparr>"
proof -
  let ?spans = "concat (map text_block_spans (take (min 5 (page_count d)) (d_pages d)))"
  have "filter (\<lambda>s. 10 < length (py_strip (sp_text s))) ?spans = []"
    using assms by (fastforce simp: filter_empty_conv list_all_iff)
  then show ?thesis
    by (simp add: analyze_document_structure_def Let_def)
qed

lemma doc_labels_spans:
  "concat (map text_block_spans (take (min 5 (page_count doc_labels)) (d_pages doc_labels)))
     = [mk_span ''Name'' 10, mk_span ''Date'' 14, mk_span ''Total'' 18]"
  by (simp add: doc_labels_def doc_eval)

text \<open>The page of labels: the average text length of its statistics is not 50, it is absent.\<close>

theorem analyze_without_body_candidates_witness:
  "list_all (\<lambda>s. length (py_strip (sp_text s)) \<le> 10)
     (concat (map text_block_spans
                (take (min 5 (page_count doc_labels)) (d_pages doc_labels))))
   \<and> analyze_document_structure doc_labels =
       Inr \<lparr> ds_body_size = Some 12, ds_large_font_threshold = Some (3 / 2),
             ds_medium_font_threshold = Some (6 / 5), ds_avg_text_length = None,
             ds_font_sizes = None \<rparr>
   \<and> map_sum id ds_avg_text_length (analyze_document_structure doc_labels) \<noteq> Inr (Some 50)"
proof -
  have h: "list_all (\<lambda>s. length (py_strip (sp_text s)) \<le> 10)
     (concat (map text_block_spans
                (take (min 5 (page_count doc_labels)) (d_pages doc_labels))))"
    unfolding doc_labels_spans by (simp add: mk_span_def str_eval)
  show ?thesis
    using h analyze_without_body_candidates [OF h] by simp
qed

section \<open>The metadata title\<close>

text \<open>
  C1, as the code has it. For every document with at least one page whose metadata
  title, once the whitespace around it is trimmed, is longer than 3 characters,
  \<open>extract_title_from_pdf\<close> returns the trimmed metadata title as the title and as the
  only component, and loads no page, however many pages there are.
\<close>

theorem metadata_title_returned:
  assumes "page_count d \<noteq> 0" and "d_title d = Some t" and "3 < length (py_strip t)"
  shows "extract_title_from_pdf U d = Inr ((py_strip t, [py_strip t]), [])"
  using assms by (auto simp: extract_title_from_pdf_def Let_def)

theorem metadata_title_returned_witness:
  "page_count doc_report \<noteq> 0 \<and> d_title doc_report = Some (py ''Annual Report 2023'')
   \<and> 3 < length (py_strip (py ''Annual Report 2023''))
   \<and> extract_title_from_pdf ucd_plain doc_report
       = Inr ((py ''Annual Report 2023'', [py ''Annual Report 2023'']), [])"
proof -
  have pc: "page_count doc_report \<noteq> 0"
    by (simp add: doc_report_def page_count_def)
  have ti: "d_title doc_report = Some (py ''Annual Report 2023'')"
    by (simp add: doc_report_def)
  have st: "py_strip (py ''Annual Report 2023'') = py ''Annual Report 2023''"
    by (simp add: str_eval)
  have ln: "3 < length (py_strip (py ''Annual Report 2023''))"
    unfolding st by (simp add: py_def)
  show ?thesis
    using pc ti ln metadata_title_returned [OF pc ti ln, of ucd_plain] st by simp
qed

text \<open>The title search on the page of \<open>doc_report\<close> and \<open>doc_padded\<close>, step by step.\<close>

lemma quarterly_spans:
  "title_spans ucd_plain (mk_page [mk_span ''Quarterly figures and outlook'' 11])
     = [span_quarterly]"
  by (simp add: title_spans_def doc_eval is_bold_font_def str_eval span_quarterly_def)

lemma quarterly_group: "group_text_spans [span_quarterly] 5 20 = [span_quarterly]"
  by (simp add: group_text_spans_def close_group_def merge_group_def span_quarterly_def)

lemma quarterly_furniture:
  "\<not> re_match ucd_plain (pat_furniture ucd_plain) (py ''Quarterly figures and outlook'')"
  by (simp add: pat_furniture_def rx_eval)

lemma quarterly_words: "length (py_split (py ''Quarterly figures and outlook'')) = 4"
  by (simp add: str_eval)

lemma quarterly_candidate: "is_title_candidate ucd_plain 800 11 span_quarterly"
  using quarterly_furniture quarterly_words
  by (simp add: is_title_candidate_def span_quarterly_def) (simp add: py_def)

lemma quarterly_clean:
  "clean_title (py ''Quarterly figures and outlook'') = py ''Quarterly figures and outlook''"
  by (simp add: clean_title_def str_eval)

lemma quarterly_page:
  "title_on_page ucd_plain (mk_page [mk_span ''Quarterly figures and outlook'' 11])
     = Some (py ''Quarterly figures and outlook'')"
proof -
  have h: "pg_height (mk_page [mk_span ''Quarterly figures and outlook'' 11]) = 800"
    by (simp add: mk_page_def)
  have f: "ts_font_size span_quarterly = 11"
    and t: "ts_text span_quarterly = py ''Quarterly figures and outlook''"
    by (simp_all add: span_quarterly_def)
  show ?thesis
    unfolding title_on_page_def quarterly_spans
    by (simp add: quarterly_group h f t quarterly_candidate quarterly_clean)
qed

text \<open>
  The claim as the specification states it fails in two ways. The document without
  pages carries the metadata title "Annual Report 2023" and gets the empty title. The
  metadata title " ab  " has 5 characters, but 2 once trimmed: the pages are searched
  (page 0 is loaded) and the title comes from the page.
\<close>

theorem metadata_title_counterexample:
  "d_title doc_no_pages = Some (py ''Annual Report 2023'')
   \<and> 3 < length (py ''Annual Report 2023'')
   \<and> extract_title_from_pdf ucd_plain doc_no_pages = Inr (([], []), [])
   \<and> d_title doc_padded = Some (py '' ab  '')
   \<and> 3 < length (py '' ab  '')
   \<and> extract_title_from_pdf ucd_plain doc_padded
       = Inr ((py ''Quarterly figures and outlook'', [py ''Quarterly figures and outlook'']),
              [0])"
proof -
  have none: "extract_title_from_pdf ucd_plain doc_no_pages = Inr (([], []), [])"
    by (simp add: extract_title_from_pdf_def doc_no_pages_def page_count_def)
  have padded: "extract_title_from_pdf ucd_plain doc_padded
       = Inr ((py ''Quarterly figures and outlook'', [py ''Quarterly figures and outlook'']),
              [0])"
    using quarterly_page
    by (simp add: extract_title_from_pdf_def doc_padded_def page_count_def enumerate_eq_zip
        str_eval)
  show ?thesis
    using none padded by (simp add: doc_no_pages_def doc_padded_def py_def)
qed

section \<open>Failures of one document\<close>

lemma stage_failure:
  assumes "extract_title_from_pdf U d = Inl e
           \<or> analyze_document_structure d = Inl e
           \<or> sample_text (take (min 3 (page_count d)) (d_pages d)) = Inl e"
  shows "\<exists>e'. outline_of_doc U C pdf_path d = Inl e'"
  using assms
  by (auto simp: outline_of_doc_def Let_def split: sum.split option.split prod.split)

text \<open>
  What the handler does with a failure: the empty result when the error message can be
  printed, and the exception of \<open>print\<close> otherwise.
\<close>

lemma failure_handled:
  assumes "opened = Inl e \<or> (\<exists>d. opened = Inr d \<and> outline_of_doc U C pdf_path d = Inl e)"
  shows "extract_outline_from_pdf U C pdf_path opened =
           (if list_all (con_encodes C) (error_message C pdf_path e @ [10])
            then Inr empty_result else Inl UnicodeEncodeError)"
  using assms by (auto simp: extract_outline_from_pdf_def py_print_def)

text \<open>
  A page with spans of three sizes whose only body text has size 0: the statistics
  divide by the body size, and the division raises.
\<close>

lemma zero_size_fails: "analyze_document_structure doc_zero_size = Inl ZeroDivisionError"
  by (simp add: analyze_document_structure_def doc_zero_size_def doc_eval unique_desc_def
      str_eval Let_def)

lemma zero_size_title:
  "extract_title_from_pdf ucd_plain doc_zero_size
     = Inr ((py ''Annual Report 2023'', [py ''Annual Report 2023'']), [])"
  by (simp add: extract_title_from_pdf_def doc_zero_size_def page_count_def str_eval Let_def)

lemma zero_size_outline:
  "outline_of_doc ucd_plain console_utf8 pdf_path doc_zero_size = Inl ZeroDivisionError"
proof -
  have "page_count doc_zero_size = 1"
    by (simp add: doc_zero_size_def page_count_def)
  then show ?thesis
    by (simp add: outline_of_doc_def zero_size_title zero_size_fails)
qed

lemma surrogate_not_printed:
  "py_print console_utf8 (error_message console_utf8 path_surrogate e) = Some UnicodeEncodeError"
  by (simp add: py_print_def error_message_def console_utf8_def path_surrogate_def)

lemma report_printed:
  "py_print console_utf8 (error_message console_utf8 path_report e) = None"
  by (simp add: py_print_def error_message_def console_utf8_def path_report_def py_def)

text \<open>
  C2. \<open>extract_outline_from_pdf\<close> can raise. With a path that the console cannot
  write, here one that holds the surrogate U+DCFF, a failure inside \<open>try\<close> reaches
  the handler, the \<open>print\<close> of the handler raises \<open>UnicodeEncodeError\<close>, and the
  function ends with that exception instead of the empty result: so when the document
  cannot be opened, and so when the statistics divide by a body size of 0. With a path
  that can be written, the same two failures give the empty result.
\<close>

theorem handler_print_raises:
  "extract_outline_from_pdf ucd_plain console_utf8 path_surrogate (Inl OpenError)
     = Inl UnicodeEncodeError
   \<and> extract_outline_from_pdf ucd_plain console_utf8 path_surrogate (Inr doc_zero_size)
     = Inl UnicodeEncodeError
   \<and> extract_outline_from_pdf ucd_plain console_utf8 path_report (Inl OpenError)
     = Inr empty_result
   \<and> extract_outline_from_pdf ucd_plain console_utf8 path_report (Inr doc_zero_size)
     = Inr empty_result"
  by (simp add: extract_outline_from_pdf_def zero_size_outline surrogate_not_printed
      report_printed)

section \<open>Idempotence of the normalisation\<close>

text \<open>Trimming and collapsing whitespace, applied to their own result, change nothing.\<close>

lemma last_dropWhile: "dropWhile P xs \<noteq> [] \<Longrightarrow> last (dropWhile P xs) = last xs"
  by (induction xs) (auto split: if_splits)

lemma dropWhile_nonempty: "xs \<noteq> [] \<Longrightarrow> \<not> P (last xs) \<Longrightarrow> dropWhile P xs \<noteq> []"
  using last_in_set [of xs] by (auto simp: dropWhile_eq_Nil_conv)

lemma dropWhile_hd_id: "s = [] \<or> \<not> P (hd s) \<Longrightarrow> dropWhile P s = s"
  by (cases s) auto

lemma collapse_hd:
  "s \<noteq> [] \<Longrightarrow> \<not> py_isspace (hd s) \<Longrightarrow> collapse_ws s \<noteq> [] \<and> hd (collapse_ws s) = hd s"
  by (cases s) auto

lemma collapse_nonempty: "s \<noteq> [] \<Longrightarrow> collapse_ws s \<noteq> []"
  by (cases s) auto

lemma collapse_last:
  "s \<noteq> [] \<Longrightarrow> \<not> py_isspace (last s) \<Longrightarrow> \<not> py_isspace (last (collapse_ws s))"
proof (induction s rule: collapse_ws.induct)
  case 1
  then show ?case by simp
next
  case (2 c cs)
  show ?case
  proof (cases "py_isspace c")
    case True
    with 2 have cs: "cs \<noteq> []" by auto
    from 2 cs have lastcs: "\<not> py_isspace (last cs)" by simp
    have d: "dropWhile py_isspace cs \<noteq> []"
      using cs lastcs by (rule dropWhile_nonempty)
    have l: "last (dropWhile py_isspace cs) = last cs"
      using d by (rule last_dropWhile)
    have "\<not> py_isspace (last (collapse_ws (dropWhile py_isspace cs)))"
      using "2.IH"(1) [OF True d] l lastcs by simp
    moreover have "collapse_ws (dropWhile py_isspace cs) \<noteq> []"
      using d by (rule collapse_nonempty)
    ultimately show ?thesis
      using True by simp
  next
    case False
    show ?thesis
    proof (cases "cs = []")
      case True
      with False show ?thesis by simp
    next
      case nonempty: False
      from 2 nonempty have "\<not> py_isspace (last cs)" by simp
      then have "\<not> py_isspace (last (collapse_ws cs))"
        using "2.IH"(2) [OF False nonempty] by simp
      moreover have "collapse_ws cs \<noteq> []"
        using nonempty by (rule collapse_nonempty)
      ultimately show ?thesis
        using False by simp
    qed
  qed
qed

lemma collapse_idem: "collapse_ws (collapse_ws s) = collapse_ws s"
proof (induction s rule: collapse_ws.induct)
  case 1
  then show ?case by simp
next
  case (2 c cs)
  show ?case
  proof (cases "py_isspace c")
    case True
    define u where "u = dropWhile py_isspace cs"
    have "collapse_ws u = [] \<or> \<not> py_isspace (hd (collapse_ws u))"
    proof (cases "u = []")
      case True
      then show ?thesis by simp
    next
      case False
      then have "\<not> py_isspace (hd u)"
        unfolding u_def using hd_dropWhile [of py_isspace cs] by simp
      with False show ?thesis using collapse_hd [of u] by simp
    qed
    then have "dropWhile py_isspace (collapse_ws u) = collapse_ws u"
      by (rule dropWhile_hd_id)
    moreover have "py_isspace 32" by (simp add: py_isspace_def)
    moreover have "collapse_ws (collapse_ws u) = collapse_ws u"
      unfolding u_def using "2.IH"(1) [OF True] .
    ultimately show ?thesis using True by (simp add: u_def)
  next
    case False
    with 2 show ?thesis by simp
  qed
qed

lemma trimmed_strip: "trimmed (py_strip t)"
proof -
  define b where "b = dropWhile py_isspace t"
  define a where "a = dropWhile py_isspace (rev b)"
  have strip: "py_strip t = rev a"
    by (simp add: py_strip_def a_def b_def)
  show ?thesis
  proof (cases "a = []")
    case True
    then show ?thesis by (simp add: trimmed_def strip)
  next
    case False
    then have b: "b \<noteq> []" by (auto simp: a_def)
    have "\<not> py_isspace (hd a)"
      using False unfolding a_def using hd_dropWhile [of py_isspace "rev b"] by simp
    then have l: "\<not> py_isspace (last (rev a))"
      using False by (simp add: last_rev)
    have "last a = last (rev b)"
      using False unfolding a_def by (rule last_dropWhile)
    also have "\<dots> = hd b" using b by (simp add: last_rev)
    finally have "last a = hd b" .
    moreover have "\<not> py_isspace (hd b)"
      using b unfolding b_def using hd_dropWhile [of py_isspace t] by simp
    ultimately have h: "\<not> py_isspace (hd (rev a))"
      using False by (simp add: hd_rev)
    show ?thesis using h l by (simp add: trimmed_def strip)
  qed
qed

lemma strip_trimmed:
  assumes "trimmed s"
  shows "py_strip s = s"
proof (cases "s = []")
  case True
  then show ?thesis by (simp add: py_strip_def)
next
  case False
  with assms have h: "\<not> py_isspace (hd s)" and l: "\<not> py_isspace (last s)"
    by (simp_all add: trimmed_def)
  have 1: "dropWhile py_isspace s = s" using h by (simp add: dropWhile_hd_id)
  have "hd (rev s) = last s" using False by (simp add: hd_rev)
  then have 2: "dropWhile py_isspace (rev s) = rev s" using l by (simp add: dropWhile_hd_id)
  show ?thesis by (simp add: py_strip_def 1 2)
qed

lemma trimmed_collapse:
  assumes "trimmed s"
  shows "trimmed (collapse_ws s)"
proof (cases "s = []")
  case True
  then show ?thesis by (simp add: trimmed_def)
next
  case False
  with assms have h: "\<not> py_isspace (hd s)" and l: "\<not> py_isspace (last s)"
    by (simp_all add: trimmed_def)
  show ?thesis
    using collapse_hd [OF False h] collapse_last [OF False l] h
    by (simp add: trimmed_def)
qed

lemma strip_collapse_idem:
  "collapse_ws (py_strip (collapse_ws (py_strip t))) = collapse_ws (py_strip t)"
  by (simp add: strip_trimmed trimmed_collapse trimmed_strip collapse_idem)

lemma set_collapse: "set (collapse_ws s) \<subseteq> insert 32 (set s)"
proof (induction s rule: collapse_ws.induct)
  case 1
  then show ?case by simp
next
  case (2 c cs)
  have "set (dropWhile py_isspace cs) \<subseteq> set cs" by (auto dest: set_dropWhileD)
  with 2 show ?case by (cases "py_isspace c") auto
qed

lemma set_strip: "set (py_strip s) \<subseteq> set s"
  unfolding py_strip_def by (auto dest!: set_dropWhileD)

lemma no_directional_kept:
  assumes "list_all (\<lambda>c. \<not> is_directional c) s"
  shows "filter (\<lambda>c. \<not> is_directional c) (collapse_ws (py_strip s)) = collapse_ws (py_strip s)"
proof -
  have "\<not> is_directional 32" by (simp add: is_directional_def)
  moreover have "set (collapse_ws (py_strip s)) \<subseteq> insert 32 (set s)"
    using set_collapse [of "py_strip s"] set_strip [of s] by auto
  ultimately show ?thesis
    using assms by (auto simp: filter_id_conv list_all_iff)
qed

lemma ascii_normalize:
  assumes "is_ascii s"
  shows "is_ascii (normalize_text U s lang)"
proof -
  have n: "py_nfc U s = s" using assms by (simp add: py_nfc_def)
  have "set (collapse_ws (py_strip t)) \<subseteq> insert 32 (set t)" for t
    using set_collapse [of "py_strip t"] set_strip [of t] by auto
  then have "set t \<subseteq> set s \<Longrightarrow> is_ascii (collapse_ws (py_strip t))" for t
    using assms unfolding is_ascii_def list_all_iff by fastforce
  then show ?thesis
    using assms by (auto simp: normalize_text_def n Let_def)
qed

text \<open>
  C5, as the code has it. \<open>normalize_text\<close> applied to its own result gives that
  result again, for every script, whenever the result is in NFC, that is, when
  \<open>unicodedata.normalize('NFC', _)\<close> leaves it unchanged. For ASCII text this is always
  so.
\<close>

theorem normalize_idempotent_on_nfc:
  assumes "is_ascii s \<or> py_nfc U (normalize_text U s lang) = normalize_text U s lang"
  shows "normalize_text U (normalize_text U s lang) lang = normalize_text U s lang"
proof (cases "s = []")
  case True
  then show ?thesis by (simp add: normalize_text_def)
next
  case False
  define t where "t = (if lang = Arabic \<or> lang = Hebrew
                       then filter (\<lambda>c. \<not> is_directional c) (py_nfc U s) else py_nfc U s)"
  define n where "n = collapse_ws (py_strip t)"
  have n: "normalize_text U s lang = n"
    using False by (simp add: normalize_text_def n_def t_def Let_def)
  have nfc: "py_nfc U n = n"
    using assms ascii_normalize [of s U lang] unfolding n by (auto simp: py_nfc_def)
  have filt: "lang = Arabic \<or> lang = Hebrew \<Longrightarrow> filter (\<lambda>c. \<not> is_directional c) n = n"
    unfolding n_def
    by (rule no_directional_kept) (auto simp: t_def list_all_iff)
  have idem: "collapse_ws (py_strip n) = n"
    unfolding n_def by (rule strip_collapse_idem)
  show ?thesis
    unfolding n
    using nfc filt idem by (auto simp: normalize_text_def Let_def)
qed

text \<open>
  In \<open>marked_text\<close> the accent follows its letter: NFC composes them before the
  directional mark is removed, and the result \<open>[233, 32, 120]\<close> is in NFC.
\<close>

lemma marked_normal: "normalize_text ucd_compose marked_text Arabic = [233, 32, 120]"
  by (simp add: normalize_text_def marked_text_def py_nfc_def is_ascii_def ucd_compose_def
      ucd_plain_def is_directional_def py_strip_def py_isspace_def)

theorem normalize_idempotent_on_nfc_witness:
  "py_nfc ucd_compose (normalize_text ucd_compose marked_text Arabic)
     = normalize_text ucd_compose marked_text Arabic
   \<and> normalize_text ucd_compose marked_text Arabic = [233, 32, 120]
   \<and> normalize_text ucd_compose (normalize_text ucd_compose marked_text Arabic) Arabic
     = normalize_text ucd_compose marked_text Arabic"
proof -
  have h: "py_nfc ucd_compose (normalize_text ucd_compose marked_text Arabic)
             = normalize_text ucd_compose marked_text Arabic"
    unfolding marked_normal by (simp add: py_nfc_def is_ascii_def ucd_compose_def ucd_plain_def)
  then have h': "is_ascii marked_text
      \<or> py_nfc ucd_compose (normalize_text ucd_compose marked_text Arabic)
          = normalize_text ucd_compose marked_text Arabic"
    by (rule disjI2)
  show ?thesis
    using h normalize_idempotent_on_nfc [OF h'] marked_normal by simp
qed

text \<open>
  The claim as the specification states it fails for the script \<open>Arabic\<close> at the text
  \<open>"e" + U+200E + U+0301\<close>. The directional mark stands between the letter and the
  accent, so NFC leaves the text as it is; removing the mark gives \<open>"e" + U+0301\<close>,
  which is not in NFC: the second application composes it to U+00E9.
\<close>

theorem normalize_idempotent_counterexample:
  "normalize_text ucd_compose (normalize_text ucd_compose [101, 8206, 769] Arabic) Arabic
     \<noteq> normalize_text ucd_compose [101, 8206, 769] Arabic"
  by (simp add: normalize_text_def py_nfc_def is_ascii_def ucd_compose_def ucd_plain_def
      is_directional_def py_strip_def py_isspace_def)

end
